theory Spec2Isabelle
  imports Main
begin

section \<open>JavaScript values\<close>

text \<open>
  The script is \<^verbatim>\<open>src/templates/script.js\<close>: two event handlers over five elements of
  the page. Strings are lists of code units; \<^typ>\<open>char\<close> covers the code units below 256.
\<close>

text \<open>
  What can be thrown here: the rejection of \<^verbatim>\<open>fetch\<close>, the rejection of
  \<^verbatim>\<open>response.json()\<close>, a TypeError raised by the handler's own expressions, and the two
  exceptions with which \<^verbatim>\<open>classList.add\<close> refuses a token.
\<close>

datatype js_error =
    FetchFailed
  | JsonSyntaxError
  | TypeError
  | DOMSyntaxError
  | InvalidCharacterError

text \<open>
  A value as \<^verbatim>\<open>JSON.parse\<close> builds it, and \<^verbatim>\<open>undefined\<close> for a property that is absent.
  The handlers never compute with a number: they test it and print it. A number is
  therefore held as the string \<^verbatim>\<open>Number.prototype.toString\<close> gives for it
  (\<^verbatim>\<open>0\<close> for both zeros). An object is the list of its own properties; where a name
  repeats, the first entry is the property.
\<close>

datatype jsval =
    JUndefined
  | JNull
  | JBool bool
  | JNum string
  | JStr string
  | JArr "jsval list"
  | JObj "(string \<times> jsval) list"

text \<open>ToBoolean, as \<^verbatim>\<open>if (data.response)\<close>, \<^verbatim>\<open>!query\<close> and \<^verbatim>\<open>||\<close> apply it.\<close>

fun truthy :: "jsval \<Rightarrow> bool" where
  "truthy JUndefined = False"
| "truthy JNull = False"
| "truthy (JBool b) = b"
| "truthy (JNum r) = (r \<noteq> ''0'' \<and> r \<noteq> ''NaN'')"
| "truthy (JStr s) = (s \<noteq> [])"
| "truthy (JArr vs) = True"
| "truthy (JObj kvs) = True"

text \<open>
  ToString, as a template literal and the \<^verbatim>\<open>textContent\<close> setter apply it. An array is
  joined with commas, \<^verbatim>\<open>null\<close> and \<^verbatim>\<open>undefined\<close> elements printing as nothing. A parsed
  object inherits \<^verbatim>\<open>Object.prototype.toString\<close> unless it has an own property of that
  name; such a property is data, never a function, and \<^verbatim>\<open>valueOf\<close> gives no primitive
  either, so the conversion throws a TypeError.
\<close>

fun to_string :: "jsval \<Rightarrow> js_error + string"
and join :: "jsval list \<Rightarrow> js_error + string" where
  "to_string JUndefined = Inr ''undefined''"
| "to_string JNull = Inr ''null''"
| "to_string (JBool b) = Inr (if b then ''true'' else ''false'')"
| "to_string (JNum r) = Inr r"
| "to_string (JStr s) = Inr s"
| "to_string (JArr vs) = join vs"
| "to_string (JObj kvs) =
     (if map_of kvs ''toString'' \<noteq> None then Inl TypeError else Inr ''[object Object]'')"
| "join [] = Inr []"
| "join (v # vs) =
     (case (if v = JUndefined \<or> v = JNull then Inr [] else to_string v) of
        Inl e \<Rightarrow> Inl e
      | Inr a \<Rightarrow>
          (if vs = [] then Inr a
           else (case join vs of Inl e \<Rightarrow> Inl e | Inr b \<Rightarrow> Inr (a @ '','' @ b))))"

text \<open>
  Reading a property. The script reads \<^verbatim>\<open>response\<close> and \<^verbatim>\<open>message\<close>, names that no
  built-in prototype defines: only an own property of an object gives a value, every
  other value but \<^verbatim>\<open>null\<close> and \<^verbatim>\<open>undefined\<close> gives \<^verbatim>\<open>undefined\<close>, and those two throw.
\<close>

fun get_prop :: "jsval \<Rightarrow> string \<Rightarrow> js_error + jsval" where
  "get_prop JUndefined k = Inl TypeError"
| "get_prop JNull k = Inl TypeError"
| "get_prop (JObj kvs) k = Inr (case map_of kvs k of None \<Rightarrow> JUndefined | Some v \<Rightarrow> v)"
| "get_prop v k = Inr JUndefined"

text \<open>\<^verbatim>\<open>String.prototype.trim\<close>: white space and line terminators, among the code units below 256.\<close>

definition is_space :: "char \<Rightarrow> bool" where
  "is_space c = (c \<in> set [CHR 0x09, CHR 0x0A, CHR 0x0B, CHR 0x0C, CHR 0x0D, CHR 0x20, CHR 0xA0])"

definition trim :: "string \<Rightarrow> string" where
  "trim s = rev (dropWhile is_space (rev (dropWhile is_space s)))"

section \<open>The page\<close>

text \<open>
  A node of the document: a text node, or an element with its tag, its id (empty when it
  has none), its class list and its children. The script observes nothing else of an
  element.
\<close>

datatype node =
    TextNode string
  | Element (tag: string) (node_id: string) (class_list: "string list") (child_nodes: "node list")

text \<open>
  \<^verbatim>\<open>document.getElementById\<close>: the first element in tree order with the id. The forest
  searched is the list of children of \<^verbatim>\<open>#chat-messages\<close>, the only part of the document
  the script adds elements to. The markup of the page itself is not among the sources:
  it is taken to hold the five elements that the script looks up when it loads, and no
  element with the id \<^verbatim>\<open>typing-indicator\<close>.
\<close>

fun getElementById :: "string \<Rightarrow> node list \<Rightarrow> node option" where
  "getElementById i [] = None"
| "getElementById i (TextNode t # ns) = getElementById i ns"
| "getElementById i (Element tg j cs ks # ns) =
     (if j = i then Some (Element tg j cs ks)
      else (case getElementById i ks of
              Some n \<Rightarrow> Some n
            | None \<Rightarrow> getElementById i ns))"

text \<open>\<^verbatim>\<open>remove()\<close> on the element that \<^const>\<open>getElementById\<close> found: it leaves with its subtree.\<close>

fun detach :: "string \<Rightarrow> node list \<Rightarrow> node list" where
  "detach i [] = []"
| "detach i (TextNode t # ns) = TextNode t # detach i ns"
| "detach i (Element tg j cs ks # ns) =
     (if j = i then ns
      else if getElementById i ks \<noteq> None then Element tg j cs (detach i ks) # ns
      else Element tg j cs ks # detach i ns)"

text \<open>How many elements of a forest carry an id.\<close>

fun count_id :: "string \<Rightarrow> node list \<Rightarrow> nat" where
  "count_id i [] = 0"
| "count_id i (TextNode t # ns) = count_id i ns"
| "count_id i (Element tg j cs ks # ns) =
     (if j = i then 1 else 0) + count_id i ks + count_id i ns"

text \<open>
  \<^verbatim>\<open>classList.add\<close> checks its tokens before it adds any: the empty token is refused with a
  SyntaxError, a token with ASCII white space in it with an InvalidCharacterError.
\<close>

definition ascii_whitespace :: "char \<Rightarrow> bool" where
  "ascii_whitespace c = (c \<in> set [CHR 0x09, CHR 0x0A, CHR 0x0C, CHR 0x0D, CHR 0x20])"

definition token_error :: "string \<Rightarrow> js_error option" where
  "token_error c =
     (if c = [] then Some DOMSyntaxError
      else if list_ex ascii_whitespace c then Some InvalidCharacterError
      else None)"

text \<open>
  \<^verbatim>\<open>classList.add\<close> and \<^verbatim>\<open>classList.remove\<close> on tokens that passed the check: a class list
  holds a token once.
\<close>

definition class_add :: "string \<Rightarrow> string list \<Rightarrow> string list" where
  "class_add c cs = (if c \<in> set cs then cs else cs @ [c])"

definition class_remove :: "string \<Rightarrow> string list \<Rightarrow> string list" where
  "class_remove c cs = filter (\<lambda>x. x \<noteq> c) cs"

text \<open>A call of \<^verbatim>\<open>fetch\<close>: the address, the method, the headers and the value serialised as the body.\<close>

datatype request =
  Request (req_url: string) (req_method: string) (req_headers: "(string \<times> string) list")
    (req_body: "jsval option")

text \<open>
  What a call of \<^verbatim>\<open>fetch\<close> comes to, once awaited: a rejection, or a response with its
  status code and with what \<^verbatim>\<open>response.json()\<close> settles to.
\<close>

datatype fetch_result =
    Rejected js_error
  | Response nat "js_error + jsval"

text \<open>Every change the script makes to the page or sends out of it, in program order.\<close>

datatype effect =
    Appended node
  | Removed node
  | InputValueSet string
  | InputDisabledSet bool
  | InputFocused
  | Fetched request
  | ConsoleError js_error
  | RefreshDisabledSet bool
  | RefreshClassAdded string
  | RefreshClassRemoved string
  | ToastTextSet string
  | ToastClassAdded string
  | ToastClassRemoved string
  | TimeoutSet nat

text \<open>
  The state: the children of \<^verbatim>\<open>#chat-messages\<close>, the input field, the refresh button, the
  toast, the timers set by \<^verbatim>\<open>setTimeout\<close> and not yet run (each by the time it is due:
  the script has one callback), the time in milliseconds, the requests sent and not yet
  answered, and the effects so far. The scroll position of the log, which the script
  moves to the bottom after each append, depends on the layout and is not part of the
  state.
\<close>

record page =
  chat_messages :: "node list"
  input_value :: string
  input_disabled :: bool
  input_focused :: bool
  refresh_disabled :: bool
  refresh_classes :: "string list"
  toast_text :: string
  toast_classes :: "string list"
  timers :: "nat list"
  clock :: nat
  in_flight :: "request list"
  trace :: "effect list"

text \<open>How a piece of the script ends: normally, or by throwing, with the page as it is then.\<close>

datatype completion = Normal page | Throw js_error page

fun page_of :: "completion \<Rightarrow> page" where
  "page_of (Normal s) = s"
| "page_of (Throw e s) = s"

fun thrown :: "completion \<Rightarrow> js_error option" where
  "thrown (Normal s) = None"
| "thrown (Throw e s) = Some e"

subsection \<open>The operations on the page\<close>

definition appendChild :: "node \<Rightarrow> page \<Rightarrow> page" where
  "appendChild n s = s\<lparr>chat_messages := chat_messages s @ [n], trace := trace s @ [Appended n]\<rparr>"

definition set_input_value :: "string \<Rightarrow> page \<Rightarrow> page" where
  "set_input_value v s = s\<lparr>input_value := v, trace := trace s @ [InputValueSet v]\<rparr>"

definition set_input_disabled :: "bool \<Rightarrow> page \<Rightarrow> page" where
  "set_input_disabled b s = s\<lparr>input_disabled := b, trace := trace s @ [InputDisabledSet b]\<rparr>"

definition input_focus :: "page \<Rightarrow> page" where
  "input_focus s = s\<lparr>input_focused := True, trace := trace s @ [InputFocused]\<rparr>"

definition fetch :: "request \<Rightarrow> page \<Rightarrow> page" where
  "fetch r s = s\<lparr>in_flight := in_flight s @ [r], trace := trace s @ [Fetched r]\<rparr>"

definition console_error :: "js_error \<Rightarrow> page \<Rightarrow> page" where
  "console_error e s = s\<lparr>trace := trace s @ [ConsoleError e]\<rparr>"

definition set_refresh_disabled :: "bool \<Rightarrow> page \<Rightarrow> page" where
  "set_refresh_disabled b s =
     s\<lparr>refresh_disabled := b, trace := trace s @ [RefreshDisabledSet b]\<rparr>"

definition refresh_class_add :: "string \<Rightarrow> page \<Rightarrow> page" where
  "refresh_class_add c s =
     s\<lparr>refresh_classes := class_add c (refresh_classes s), trace := trace s @ [RefreshClassAdded c]\<rparr>"

definition refresh_class_remove :: "string \<Rightarrow> page \<Rightarrow> page" where
  "refresh_class_remove c s =
     s\<lparr>refresh_classes := class_remove c (refresh_classes s),
       trace := trace s @ [RefreshClassRemoved c]\<rparr>"

definition set_toast_text :: "string \<Rightarrow> page \<Rightarrow> page" where
  "set_toast_text t s = s\<lparr>toast_text := t, trace := trace s @ [ToastTextSet t]\<rparr>"

definition toast_class_add :: "string \<Rightarrow> page \<Rightarrow> page" where
  "toast_class_add c s =
     s\<lparr>toast_classes := class_add c (toast_classes s), trace := trace s @ [ToastClassAdded c]\<rparr>"

definition toast_class_remove :: "string \<Rightarrow> page \<Rightarrow> page" where
  "toast_class_remove c s =
     s\<lparr>toast_classes := class_remove c (toast_classes s), trace := trace s @ [ToastClassRemoved c]\<rparr>"

definition setTimeout :: "nat \<Rightarrow> page \<Rightarrow> page" where
  "setTimeout delay s =
     s\<lparr>timers := timers s @ [clock s + delay], trace := trace s @ [TimeoutSet delay]\<rparr>"

section \<open>The script\<close>

text \<open>
  The \<^verbatim>\<open>innerHTML\<close> setter hands a string to the browser's HTML parser, which the script
  does not contain: the parser is the parameter \<open>parse\<close> of every function that sets
  \<^verbatim>\<open>innerHTML\<close>, from the markup to the children it makes.
\<close>

definition content_html :: "string \<Rightarrow> string" where
  \<open>content_html text = ''<div class="content">'' @ text @ ''</div>''\<close>

text \<open>Lines 9 to 11: the element that \<^verbatim>\<open>addMessage\<close> builds, the text already a string.\<close>

definition message_element :: "(string \<Rightarrow> node list) \<Rightarrow> string \<Rightarrow> string \<Rightarrow> node" where
  "message_element parse t sender =
     Element ''div'' [] (class_add sender (class_add ''message'' [])) (parse (content_html t))"

text \<open>
  Line 10 throws when \<open>sender\<close> is not a token that \<^verbatim>\<open>classList.add\<close> accepts; then, on
  line 11, the template literal converts \<open>text\<close> to a string, which can throw as well. In
  both cases nothing has been added to the page.
\<close>

definition addMessage :: "(string \<Rightarrow> node list) \<Rightarrow> jsval \<Rightarrow> string \<Rightarrow> page \<Rightarrow> completion" where
  "addMessage parse text sender s =
     (case token_error sender of
        Some e \<Rightarrow> Throw e s
      | None \<Rightarrow>
          (case to_string text of
             Inl e \<Rightarrow> Throw e s
           | Inr t \<Rightarrow> Normal (appendChild (message_element parse t sender) s)))"

definition indicator_html :: string where
  \<open>indicator_html =
     [CHR 0x0A] @ replicate 12 CHR '' '' @ ''<div class="typing-indicator">'' @
     [CHR 0x0A] @ replicate 16 CHR '' '' @ ''<div class="typing-dot"></div>'' @
     [CHR 0x0A] @ replicate 16 CHR '' '' @ ''<div class="typing-dot"></div>'' @
     [CHR 0x0A] @ replicate 16 CHR '' '' @ ''<div class="typing-dot"></div>'' @
     [CHR 0x0A] @ replicate 12 CHR '' '' @ ''</div>'' @
     [CHR 0x0A] @ replicate 8 CHR '' ''\<close>

text \<open>
  Lines 17 to 26. The tokens \<^verbatim>\<open>message\<close> and \<^verbatim>\<open>ai\<close> pass the check of \<^verbatim>\<open>classList.add\<close>, as do
  \<^verbatim>\<open>fa-spin\<close> and \<^verbatim>\<open>show\<close> below.
\<close>

definition typing_indicator :: "(string \<Rightarrow> node list) \<Rightarrow> node" where
  "typing_indicator parse =
     Element ''div'' ''typing-indicator'' (class_add ''ai'' (class_add ''message'' []))
       (parse indicator_html)"

definition showTypingIndicator :: "(string \<Rightarrow> node list) \<Rightarrow> page \<Rightarrow> page" where
  "showTypingIndicator parse s = appendChild (typing_indicator parse) s"

definition removeTypingIndicator :: "page \<Rightarrow> page" where
  "removeTypingIndicator s =
     (case getElementById ''typing-indicator'' (chat_messages s) of
        None \<Rightarrow> s
      | Some indicator \<Rightarrow>
          s\<lparr>chat_messages := detach ''typing-indicator'' (chat_messages s),
            trace := trace s @ [Removed indicator]\<rparr>)"

text \<open>
  The \<^verbatim>\<open>textContent\<close> setter takes \<^verbatim>\<open>null\<close> and \<^verbatim>\<open>undefined\<close> as the empty string and
  converts any other value with ToString.
\<close>

definition show_text :: "string \<Rightarrow> page \<Rightarrow> page" where
  "show_text t s = setTimeout 3000 (toast_class_add ''show'' (set_toast_text t s))"

definition showToast :: "jsval \<Rightarrow> page \<Rightarrow> completion" where
  "showToast message s =
     (case (if message = JNull \<or> message = JUndefined then Inr [] else to_string message) of
        Inl e \<Rightarrow> Throw e s
      | Inr t \<Rightarrow> Normal (show_text t s))"

text \<open>The callback of the timer: \<^verbatim>\<open>toast.classList.remove('show')\<close>.\<close>

definition toast_timeout :: "page \<Rightarrow> page" where
  "toast_timeout s = toast_class_remove ''show'' s"

text \<open>\<^verbatim>\<open>try { block } catch (error) { handler } finally { fin }\<close>, where \<open>fin\<close> cannot throw.\<close>

definition try_catch_finally ::
  "completion \<Rightarrow> (js_error \<Rightarrow> page \<Rightarrow> completion) \<Rightarrow> (page \<Rightarrow> page) \<Rightarrow> completion" where
  "try_catch_finally block handler fin =
     (case block of
        Normal s \<Rightarrow> Normal (fin s)
      | Throw e s \<Rightarrow>
          (case handler e s of
             Normal s' \<Rightarrow> Normal (fin s')
           | Throw e' s' \<Rightarrow> Throw e' (fin s')))"

subsection \<open>The submit handler\<close>

definition chat_request :: "string \<Rightarrow> request" where
  "chat_request query =
     Request ''/api/chat'' ''POST'' [(''Content-Type'', ''application/json'')]
       (Some (JObj [(''query'', JStr query)]))"

text \<open>Lines 43 to 58: from the event to the call of \<^verbatim>\<open>fetch\<close>, where the handler waits.\<close>

definition submit_begin :: "(string \<Rightarrow> node list) \<Rightarrow> page \<Rightarrow> completion" where
  "submit_begin parse s =
     (let query = trim (input_value s) in
      if query = [] then Normal s
      else (case addMessage parse (JStr query) ''user'' s of
              Throw e s' \<Rightarrow> Throw e s'
            | Normal s1 \<Rightarrow>
                Normal (fetch (chat_request query)
                  (showTypingIndicator parse
                    (set_input_disabled True (set_input_value [] s1))))))"

text \<open>Lines 54 to 67: the rest of the \<^verbatim>\<open>try\<close> block, once the request has settled.\<close>

definition submit_try :: "(string \<Rightarrow> node list) \<Rightarrow> fetch_result \<Rightarrow> page \<Rightarrow> completion" where
  "submit_try parse r s =
     (case r of
        Rejected e \<Rightarrow> Throw e s
      | Response status b \<Rightarrow>
          (case b of
             Inl e \<Rightarrow> Throw e s
           | Inr data \<Rightarrow>
               (let s1 = removeTypingIndicator s in
                case get_prop data ''response'' of
                  Inl e \<Rightarrow> Throw e s1
                | Inr v \<Rightarrow>
                    if truthy v then addMessage parse v ''ai'' s1
                    else addMessage parse
                           (JStr ''Sorry, I encountered an error. Please try again.'') ''ai'' s1)))"

definition submit_catch :: "(string \<Rightarrow> node list) \<Rightarrow> js_error \<Rightarrow> page \<Rightarrow> completion" where
  "submit_catch parse error s =
     (case addMessage parse (JStr ''Unable to connect to the server.'') ''ai''
             (removeTypingIndicator s) of
        Throw e s' \<Rightarrow> Throw e s'
      | Normal s1 \<Rightarrow> Normal (console_error error s1))"

definition submit_finally :: "page \<Rightarrow> page" where
  "submit_finally s = input_focus (set_input_disabled False s)"

definition submit_resume :: "(string \<Rightarrow> node list) \<Rightarrow> fetch_result \<Rightarrow> page \<Rightarrow> completion" where
  "submit_resume parse r s =
     try_catch_finally (submit_try parse r s) (submit_catch parse) submit_finally"

subsection \<open>The click handler of the refresh button\<close>

definition refresh_request :: request where
  "refresh_request = Request ''/api/refresh-data'' ''POST'' [] None"

definition refresh_begin :: "page \<Rightarrow> page" where
  "refresh_begin s =
     fetch refresh_request (refresh_class_add ''fa-spin'' (set_refresh_disabled True s))"

definition refresh_try :: "fetch_result \<Rightarrow> page \<Rightarrow> completion" where
  "refresh_try r s =
     (case r of
        Rejected e \<Rightarrow> Throw e s
      | Response status b \<Rightarrow>
          (case b of
             Inl e \<Rightarrow> Throw e s
           | Inr data \<Rightarrow>
               (case get_prop data ''message'' of
                  Inl e \<Rightarrow> Throw e s
                | Inr v \<Rightarrow> showToast (if truthy v then v else JStr ''Data refreshed!'') s)))"

definition refresh_catch :: "js_error \<Rightarrow> page \<Rightarrow> completion" where
  "refresh_catch error s = showToast (JStr ''Failed to refresh data.'') s"

definition refresh_finally :: "page \<Rightarrow> page" where
  "refresh_finally s = refresh_class_remove ''fa-spin'' (set_refresh_disabled False s)"

definition refresh_resume :: "fetch_result \<Rightarrow> page \<Rightarrow> completion" where
  "refresh_resume r s = try_catch_finally (refresh_try r s) refresh_catch refresh_finally"

section \<open>The page over time\<close>

text \<open>
  What happens to the page, one event at a time: the user edits the input field (a
  disabled field cannot be edited), the form is submitted, a request to either endpoint
  settles and its handler goes on, the refresh button is clicked (a disabled button
  dispatches no click), time passes.
\<close>

datatype event =
    UserTypes string
  | SubmitForm
  | ChatSettles fetch_result
  | RefreshClicked
  | RefreshSettles fetch_result
  | TimePasses nat

definition awaiting :: "string \<Rightarrow> page \<Rightarrow> bool" where
  "awaiting u s = (u \<in> set (map req_url (in_flight s)))"

fun answered :: "string \<Rightarrow> request list \<Rightarrow> request list" where
  "answered u [] = []"
| "answered u (r # rs) = (if req_url r = u then rs else r # answered u rs)"

text \<open>
  Time passing by \<open>d\<close> milliseconds: every timer due by then runs its callback and is
  gone. A timer runs as soon as it is due.
\<close>

definition advance :: "nat \<Rightarrow> page \<Rightarrow> page" where
  "advance d s =
     (let t = clock s + d in
      foldr (\<lambda>due. toast_timeout) (filter (\<lambda>due. due \<le> t) (timers s))
        (s\<lparr>timers := filter (\<lambda>due. t < due) (timers s), clock := t\<rparr>))"

fun step :: "(string \<Rightarrow> node list) \<Rightarrow> event \<Rightarrow> page \<Rightarrow> page" where
  "step parse (UserTypes v) s = (if input_disabled s then s else s\<lparr>input_value := v\<rparr>)"
| "step parse SubmitForm s = page_of (submit_begin parse s)"
| "step parse (ChatSettles r) s =
     (if awaiting ''/api/chat'' s
      then page_of (submit_resume parse r (s\<lparr>in_flight := answered ''/api/chat'' (in_flight s)\<rparr>))
      else s)"
| "step parse RefreshClicked s = (if refresh_disabled s then s else refresh_begin s)"
| "step parse (RefreshSettles r) s =
     (if awaiting ''/api/refresh-data'' s
      then page_of (refresh_resume r (s\<lparr>in_flight := answered ''/api/refresh-data'' (in_flight s)\<rparr>))
      else s)"
| "step parse (TimePasses d) s = advance d s"

fun run :: "(string \<Rightarrow> node list) \<Rightarrow> event list \<Rightarrow> page \<Rightarrow> page" where
  "run parse [] s = s"
| "run parse (e # es) s = run parse es (step parse e s)"

text \<open>The effects a piece of the script added, from the page before to the page after.\<close>

definition new_effects :: "page \<Rightarrow> page \<Rightarrow> effect list" where
  "new_effects s s' = drop (length (trace s)) (trace s')"

section \<open>What the claims speak of\<close>

text \<open>The toast is shown while its class list holds \<^verbatim>\<open>show\<close>.\<close>

definition toast_visible :: "page \<Rightarrow> bool" where
  "toast_visible s = (''show'' \<in> set (toast_classes s))"

text \<open>The effect of \<^const>\<open>removeTypingIndicator\<close> on a page: one removal, or none.\<close>

definition removal :: "page \<Rightarrow> effect list" where
  "removal s =
     (case getElementById ''typing-indicator'' (chat_messages s) of
        None \<Rightarrow> []
      | Some n \<Rightarrow> [Removed n])"

text \<open>How many requests to an address are waiting for their answer.\<close>

definition pending :: "string \<Rightarrow> page \<Rightarrow> nat" where
  "pending u s = length (filter (\<lambda>r. req_url r = u) (in_flight s))"

text \<open>
  A message text is inert for a parser when its markup yields no element with the id of
  the typing indicator.
\<close>

definition inert :: "(string \<Rightarrow> node list) \<Rightarrow> string \<Rightarrow> bool" where
  "inert parse t = (count_id ''typing-indicator'' (parse (content_html t)) = 0)"

text \<open>
  The text of the ai message that the submit handler appends for an answer: the
  \<^verbatim>\<open>response\<close> of the answer converted to a string, or one of the two fixed texts.
\<close>

definition reply_text :: "fetch_result \<Rightarrow> string" where
  "reply_text r =
     (case r of
        Rejected e \<Rightarrow> ''Unable to connect to the server.''
      | Response status b \<Rightarrow>
          (case b of
             Inl e \<Rightarrow> ''Unable to connect to the server.''
           | Inr data \<Rightarrow>
               (case get_prop data ''response'' of
                  Inl e \<Rightarrow> ''Unable to connect to the server.''
                | Inr v \<Rightarrow>
                    if truthy v
                    then (case to_string v of
                            Inl e \<Rightarrow> ''Unable to connect to the server.''
                          | Inr t \<Rightarrow> t)
                    else ''Sorry, I encountered an error. Please try again.'')))"

text \<open>
  The message texts that an event renders on a page: the trimmed input when the form is
  submitted and the input does not trim to nothing, the text of the reply when an answer
  to a query in flight arrives. Typing renders nothing.
\<close>

fun rendered :: "event \<Rightarrow> page \<Rightarrow> string list" where
  "rendered SubmitForm s = (if trim (input_value s) = [] then [] else [trim (input_value s)])"
| "rendered (ChatSettles r) s = (if awaiting ''/api/chat'' s then [reply_text r] else [])"
| "rendered e s = []"

text \<open>Every message text rendered in the course of a sequence of events is inert.\<close>

fun inert_run :: "(string \<Rightarrow> node list) \<Rightarrow> event list \<Rightarrow> page \<Rightarrow> bool" where
  "inert_run parse [] s = True"
| "inert_run parse (e # es) s =
     (list_all (inert parse) (rendered e s) \<and> inert_run parse es (step parse e s))"

text \<open>
  The typing indicator and the query in flight go together: while a query waits for its
  answer the input field is disabled and empty and the one element with the id is the
  indicator; otherwise no element has the id.
\<close>

definition indicator_inv :: "(string \<Rightarrow> node list) \<Rightarrow> page \<Rightarrow> bool" where
  "indicator_inv parse s =
     (if awaiting ''/api/chat'' s
      then pending ''/api/chat'' s = 1 \<and> input_disabled s \<and> input_value s = [] \<and>
           count_id ''typing-indicator'' (chat_messages s) = 1 \<and>
           getElementById ''typing-indicator'' (chat_messages s) = Some (typing_indicator parse)
      else count_id ''typing-indicator'' (chat_messages s) = 0)"

text \<open>The nodes that a list of effects removed, in order.\<close>

fun removed_nodes :: "effect list \<Rightarrow> node list" where
  "removed_nodes [] = []"
| "removed_nodes (Removed n # es) = n # removed_nodes es"
| "removed_nodes (e # es) = removed_nodes es"

section \<open>A page and a parser for the examples\<close>

text \<open>
  A page with an empty log, nothing in flight and the clock at zero. The classes of the
  button and of the toast are those of a page that styles them.
\<close>

definition sample_page :: page where
  "sample_page =
     \<lparr>chat_messages = [], input_value = [], input_disabled = False, input_focused = False,
      refresh_disabled = False, refresh_classes = [''fas'', ''fa-sync''],
      toast_text = [], toast_classes = [''toast''], timers = [], clock = 0,
      in_flight = [], trace = []\<rparr>"

text \<open>
  The HTML parser on the markup that the examples set: the trees an HTML parser gives
  for these strings. No example sets any other markup.
\<close>

definition sample_documents :: "(string \<times> node list) list" where
  \<open>sample_documents =
     [(content_html ''hi'', [Element ''div'' [] [''content''] [TextNode ''hi'']]),
      (content_html ''Hello'', [Element ''div'' [] [''content''] [TextNode ''Hello'']]),
      (content_html ''<i id="typing-indicator"></i>'',
         [Element ''div'' [] [''content''] [Element ''i'' ''typing-indicator'' [] []]]),
      (content_html ''Sorry, I encountered an error. Please try again.'',
         [Element ''div'' [] [''content'']
            [TextNode ''Sorry, I encountered an error. Please try again.'']]),
      (content_html ''Unable to connect to the server.'',
         [Element ''div'' [] [''content''] [TextNode ''Unable to connect to the server.'']]),
      (indicator_html,
         [TextNode ([CHR 0x0A] @ replicate 12 CHR '' ''),
          Element ''div'' [] [''typing-indicator'']
            [TextNode ([CHR 0x0A] @ replicate 16 CHR '' ''),
             Element ''div'' [] [''typing-dot''] [],
             TextNode ([CHR 0x0A] @ replicate 16 CHR '' ''),
             Element ''div'' [] [''typing-dot''] [],
             TextNode ([CHR 0x0A] @ replicate 16 CHR '' ''),
             Element ''div'' [] [''typing-dot''] [],
             TextNode ([CHR 0x0A] @ replicate 12 CHR '' '')],
          TextNode ([CHR 0x0A] @ replicate 8 CHR '' '')])]\<close>

definition sample_parse :: "string \<Rightarrow> node list" where
  "sample_parse m = (case map_of sample_documents m of None \<Rightarrow> [] | Some ns \<Rightarrow> ns)"

section \<open>Lemmas\<close>

lemma dropWhile_all_iff: "(\<forall>x \<in> set (dropWhile P v). P x) \<longleftrightarrow> (\<forall>x \<in> set v. P x)"
proof
  assume h: "\<forall>x \<in> set (dropWhile P v). P x"
  have "dropWhile P v = []"
  proof (rule ccontr)
    assume n: "dropWhile P v \<noteq> []"
    then have "\<not> P (hd (dropWhile P v))" by (rule hd_dropWhile)
    moreover have "hd (dropWhile P v) \<in> set (dropWhile P v)" using n by simp
    ultimately show False using h by blast
  qed
  then show "\<forall>x \<in> set v. P x" by (simp add: dropWhile_eq_Nil_conv)
next
  assume "\<forall>x \<in> set v. P x"
  then show "\<forall>x \<in> set (dropWhile P v). P x" by (auto dest: set_dropWhileD)
qed

lemma trim_empty_iff: "trim v = [] \<longleftrightarrow> (\<forall>c \<in> set v. is_space c)"
  by (simp add: trim_def dropWhile_eq_Nil_conv dropWhile_all_iff)

subsection \<open>The paths of the submit handler\<close>

lemma token_error_senders [simp]:
  "token_error ''user'' = None" "token_error ''ai'' = None"
  "token_error ''message'' = None" "token_error ''fa-spin'' = None" "token_error ''show'' = None"
  by (simp_all add: token_error_def ascii_whitespace_def)

lemma addMessage_string:
  "token_error sender = None \<Longrightarrow>
   addMessage parse (JStr t) sender s = Normal (appendChild (message_element parse t sender) s)"
  by (simp add: addMessage_def)

lemma submit_catch_normal:
  "submit_catch parse e s =
     Normal (console_error e
       (appendChild (message_element parse ''Unable to connect to the server.'' ''ai'')
          (removeTypingIndicator s)))"
  by (simp add: submit_catch_def addMessage_string)

lemma submit_resume_rejected:
  "submit_resume parse (Rejected e) s =
     Normal (submit_finally (console_error e
       (appendChild (message_element parse ''Unable to connect to the server.'' ''ai'')
          (removeTypingIndicator s))))"
  by (simp add: submit_resume_def submit_try_def try_catch_finally_def submit_catch_normal)

lemma submit_resume_unparsed:
  "submit_resume parse (Response status (Inl e)) s =
     Normal (submit_finally (console_error e
       (appendChild (message_element parse ''Unable to connect to the server.'' ''ai'')
          (removeTypingIndicator s))))"
  by (simp add: submit_resume_def submit_try_def try_catch_finally_def submit_catch_normal)

lemma submit_resume_text:
  "get_prop data ''response'' = Inr v \<Longrightarrow> truthy v \<Longrightarrow> to_string v = Inr t \<Longrightarrow>
   submit_resume parse (Response status (Inr data)) s =
     Normal (submit_finally (appendChild (message_element parse t ''ai'') (removeTypingIndicator s)))"
  by (simp add: submit_resume_def submit_try_def try_catch_finally_def addMessage_def Let_def)

lemma submit_resume_falsy:
  "get_prop data ''response'' = Inr v \<Longrightarrow> \<not> truthy v \<Longrightarrow>
   submit_resume parse (Response status (Inr data)) s =
     Normal (submit_finally
       (appendChild (message_element parse ''Sorry, I encountered an error. Please try again.'' ''ai'')
          (removeTypingIndicator s)))"
  by (simp add: submit_resume_def submit_try_def try_catch_finally_def addMessage_string Let_def)

lemma submit_resume_throwing:
  "get_prop data ''response'' = Inl e \<or>
   (get_prop data ''response'' = Inr v \<and> truthy v \<and> to_string v = Inl e) \<Longrightarrow>
   submit_resume parse (Response status (Inr data)) s =
     Normal (submit_finally (console_error e
       (appendChild (message_element parse ''Unable to connect to the server.'' ''ai'')
          (removeTypingIndicator (removeTypingIndicator s)))))"
  by (auto simp: submit_resume_def submit_try_def try_catch_finally_def addMessage_def Let_def
      submit_catch_normal)

lemma submit_resume_finally: "\<exists>s1. submit_resume parse r s = Normal (submit_finally s1)"
proof (cases r)
  case (Rejected e)
  then show ?thesis using submit_resume_rejected [of parse e s] by blast
next
  case (Response status b)
  show ?thesis
  proof (cases b)
    case (Inl e)
    with Response show ?thesis using submit_resume_unparsed [of parse status e s] by blast
  next
    case (Inr data)
    show ?thesis
    proof (cases "get_prop data ''response''")
      case (Inl e)
      with Response Inr show ?thesis
        using submit_resume_throwing [of data e _ parse status s] by blast
    next
      case v: (Inr v)
      show ?thesis
      proof (cases "truthy v")
        case False
        with Response Inr v show ?thesis
          using submit_resume_falsy [of data v parse status s] by blast
      next
        case True
        show ?thesis
        proof (cases "to_string v")
          case (Inl e)
          with Response Inr v True show ?thesis
            using submit_resume_throwing [of data e v parse status s] by blast
        next
          case t: (Inr t)
          with Response Inr v True show ?thesis
            using submit_resume_text [of data v t parse status s] by blast
        qed
      qed
    qed
  qed
qed

subsection \<open>Removing the indicator\<close>

lemma getElementById_absent_detach: "getElementById i ns = None \<Longrightarrow> detach i ns = ns"
  by (induction i ns rule: detach.induct) (auto split: option.splits if_splits)

lemma chat_removeTypingIndicator:
  "chat_messages (removeTypingIndicator s) = detach ''typing-indicator'' (chat_messages s)"
  by (simp add: removeTypingIndicator_def getElementById_absent_detach split: option.splits)

lemma trace_removeTypingIndicator: "trace (removeTypingIndicator s) = trace s @ removal s"
  by (simp add: removeTypingIndicator_def removal_def split: option.splits)

lemma chat_reply:
  "chat_messages (submit_finally (appendChild m (removeTypingIndicator s))) =
     detach ''typing-indicator'' (chat_messages s) @ [m]"
  by (simp add: submit_finally_def input_focus_def set_input_disabled_def appendChild_def
      chat_removeTypingIndicator)

lemma effects_reply:
  "new_effects s (submit_finally (appendChild m (removeTypingIndicator s))) =
     removal s @ [Appended m, InputDisabledSet False, InputFocused]"
  by (simp add: new_effects_def submit_finally_def input_focus_def set_input_disabled_def
      appendChild_def trace_removeTypingIndicator)

lemma chat_failure:
  "chat_messages (submit_finally (console_error e (appendChild m (removeTypingIndicator s)))) =
     detach ''typing-indicator'' (chat_messages s) @ [m]"
  by (simp add: submit_finally_def input_focus_def set_input_disabled_def appendChild_def
      console_error_def chat_removeTypingIndicator)

lemma effects_failure:
  "new_effects s (submit_finally (console_error e (appendChild m (removeTypingIndicator s)))) =
     removal s @ [Appended m, ConsoleError e, InputDisabledSet False, InputFocused]"
  by (simp add: new_effects_def submit_finally_def input_focus_def set_input_disabled_def
      appendChild_def console_error_def trace_removeTypingIndicator)

subsection \<open>The parser of the examples\<close>

lemma sample_parse_hi:
  "sample_parse (content_html ''hi'') = [Element ''div'' [] [''content''] [TextNode ''hi'']]"
  by (simp add: sample_parse_def sample_documents_def content_html_def)

lemma sample_parse_Hello:
  "sample_parse (content_html ''Hello'') = [Element ''div'' [] [''content''] [TextNode ''Hello'']]"
  by (simp add: sample_parse_def sample_documents_def content_html_def)

lemma sample_parse_sorry:
  "sample_parse (content_html ''Sorry, I encountered an error. Please try again.'') =
     [Element ''div'' [] [''content'']
        [TextNode ''Sorry, I encountered an error. Please try again.'']]"
  by (simp add: sample_parse_def sample_documents_def content_html_def)

lemma sample_parse_unable:
  "sample_parse (content_html ''Unable to connect to the server.'') =
     [Element ''div'' [] [''content''] [TextNode ''Unable to connect to the server.'']]"
  by (simp add: sample_parse_def sample_documents_def content_html_def)

subsection \<open>The failure path, the click handler, the cleanup\<close>

lemma effects_failure_twice:
  "new_effects s (submit_finally (console_error e
      (appendChild m (removeTypingIndicator (removeTypingIndicator s))))) =
     removal s @ removal (removeTypingIndicator s) @
     [Appended m, ConsoleError e, InputDisabledSet False, InputFocused]"
  by (simp add: new_effects_def submit_finally_def input_focus_def set_input_disabled_def
      appendChild_def console_error_def trace_removeTypingIndicator)

lemma removal_range: "set (removal s) \<subseteq> range Removed"
  by (auto simp: removal_def split: option.splits)

lemma showToast_string: "showToast (JStr t) s = Normal (show_text t s)"
  by (simp add: showToast_def)

lemma refresh_resume_rejected:
  "refresh_resume (Rejected e) s =
     Normal (refresh_finally (show_text ''Failed to refresh data.'' s))"
  by (simp add: refresh_resume_def refresh_try_def try_catch_finally_def refresh_catch_def
      showToast_string)

lemma refresh_resume_unparsed:
  "refresh_resume (Response status (Inl e)) s =
     Normal (refresh_finally (show_text ''Failed to refresh data.'' s))"
  by (simp add: refresh_resume_def refresh_try_def try_catch_finally_def refresh_catch_def
      showToast_string)

lemma refresh_resume_text:
  "get_prop data ''message'' = Inr v \<Longrightarrow> truthy v \<Longrightarrow> to_string v = Inr t \<Longrightarrow>
   refresh_resume (Response status (Inr data)) s = Normal (refresh_finally (show_text t s))"
  by (auto simp: refresh_resume_def refresh_try_def try_catch_finally_def showToast_def)

lemma refresh_resume_falsy:
  "get_prop data ''message'' = Inr v \<Longrightarrow> \<not> truthy v \<Longrightarrow>
   refresh_resume (Response status (Inr data)) s =
     Normal (refresh_finally (show_text ''Data refreshed!'' s))"
  by (simp add: refresh_resume_def refresh_try_def try_catch_finally_def showToast_string)

lemma refresh_resume_throwing:
  "get_prop data ''message'' = Inl e \<or>
   (get_prop data ''message'' = Inr v \<and> truthy v \<and> to_string v = Inl e) \<Longrightarrow>
   refresh_resume (Response status (Inr data)) s =
     Normal (refresh_finally (show_text ''Failed to refresh data.'' s))"
  by (auto simp: refresh_resume_def refresh_try_def try_catch_finally_def showToast_def
      refresh_catch_def)

lemma refresh_resume_shows: "\<exists>t. refresh_resume r s = Normal (refresh_finally (show_text t s))"
proof (cases r)
  case (Rejected e)
  then show ?thesis using refresh_resume_rejected [of e s] by blast
next
  case (Response status b)
  show ?thesis
  proof (cases b)
    case (Inl e)
    with Response show ?thesis using refresh_resume_unparsed [of status e s] by blast
  next
    case (Inr data)
    show ?thesis
    proof (cases "get_prop data ''message''")
      case (Inl e)
      with Response Inr show ?thesis
        using refresh_resume_throwing [of data e _ status s] by blast
    next
      case v: (Inr v)
      show ?thesis
      proof (cases "truthy v")
        case False
        with Response Inr v show ?thesis
          using refresh_resume_falsy [of data v status s] by blast
      next
        case True
        show ?thesis
        proof (cases "to_string v")
          case (Inl e)
          with Response Inr v True show ?thesis
            using refresh_resume_throwing [of data e v status s] by blast
        next
          case t: (Inr t)
          with Response Inr v True show ?thesis
            using refresh_resume_text [of data v t status s] by blast
        qed
      qed
    qed
  qed
qed

lemma toast_after_refresh:
  "toast_text (refresh_finally (show_text t s)) = t"
  "toast_visible (refresh_finally (show_text t s))"
  "timers (refresh_finally (show_text t s)) = timers s @ [clock s + 3000]"
  by (simp_all add: refresh_finally_def show_text_def refresh_class_remove_def
      set_refresh_disabled_def setTimeout_def toast_class_add_def set_toast_text_def
      toast_visible_def class_add_def)

lemma button_after_refresh:
  "\<not> refresh_disabled (refresh_finally s)"
  "''fa-spin'' \<notin> set (refresh_classes (refresh_finally s))"
  by (simp_all add: refresh_finally_def refresh_class_remove_def set_refresh_disabled_def
      class_remove_def)

lemma input_after_submit:
  "\<not> input_disabled (submit_finally s)"
  "input_focused (submit_finally s)"
  by (simp_all add: submit_finally_def input_focus_def set_input_disabled_def)


lemma sample_parse_injected:
  \<open>sample_parse (content_html ''<i id="typing-indicator"></i>'') =
     [Element ''div'' [] [''content''] [Element ''i'' ''typing-indicator'' [] []]]\<close>
  by (simp add: sample_parse_def sample_documents_def content_html_def)

lemma get_prop_throws_iff: "(\<exists>e. get_prop data k = Inl e) \<longleftrightarrow> data = JNull \<or> data = JUndefined"
  by (cases data) auto

lemma addMessage_thrown:
  "token_error sender = None \<Longrightarrow>
   thrown (addMessage parse v sender s) = (case to_string v of Inl e \<Rightarrow> Some e | Inr t \<Rightarrow> None)"
  by (simp add: addMessage_def split: sum.splits)

lemma submit_try_throws_iff:
  "thrown (submit_try parse r s) \<noteq> None \<longleftrightarrow>
     (\<exists>e. r = Rejected e) \<or>
     (\<exists>status e. r = Response status (Inl e)) \<or>
     (\<exists>status data. r = Response status (Inr data) \<and>
        (data = JNull \<or> data = JUndefined \<or>
         (\<exists>v e. get_prop data ''response'' = Inr v \<and> truthy v \<and> to_string v = Inl e)))"
proof (cases r)
  case (Rejected e)
  then show ?thesis by (simp add: submit_try_def)
next
  case (Response status b)
  show ?thesis
  proof (cases b)
    case (Inl e)
    with Response show ?thesis by (simp add: submit_try_def)
  next
    case (Inr data)
    show ?thesis
    proof (cases "get_prop data ''response''")
      case (Inl e)
      then have "data = JNull \<or> data = JUndefined" using get_prop_throws_iff by blast
      with Response Inr Inl show ?thesis by (simp add: submit_try_def Let_def)
    next
      case v: (Inr v)
      then have n: "\<not> (data = JNull \<or> data = JUndefined)"
        using get_prop_throws_iff [of data "''response''"] by auto
      show ?thesis
        using Response Inr v n
        by (auto simp: submit_try_def Let_def addMessage_thrown split: sum.splits)
    qed
  qed
qed

subsection \<open>The timers\<close>

lemma classes_after_timeouts:
  "toast_classes (foldr (\<lambda>due. toast_timeout) ds s) =
     (if ds = [] then toast_classes s else class_remove ''show'' (toast_classes s))"
  by (induction ds) (auto simp: toast_timeout_def toast_class_remove_def class_remove_def)

lemma toast_visible_advance:
  "toast_visible (advance d s) \<longleftrightarrow>
     toast_visible s \<and> (\<forall>due \<in> set (timers s). clock s + d < due)"
proof (cases "filter (\<lambda>due. due \<le> clock s + d) (timers s) = []")
  case True
  then have "\<forall>due \<in> set (timers s). clock s + d < due"
    by (auto simp: filter_empty_conv)
  with True show ?thesis
    by (simp add: advance_def Let_def classes_after_timeouts toast_visible_def)
next
  case False
  then have "\<not> (\<forall>due \<in> set (timers s). clock s + d < due)"
    by (fastforce simp: filter_empty_conv)
  with False show ?thesis
    by (simp add: advance_def Let_def classes_after_timeouts toast_visible_def class_remove_def)
qed

lemma show_text_fields:
  "toast_text (show_text t s) = t"
  "toast_visible (show_text t s)"
  "timers (show_text t s) = timers s @ [clock s + 3000]"
  "clock (show_text t s) = clock s"
  by (simp_all add: show_text_def setTimeout_def toast_class_add_def set_toast_text_def
      toast_visible_def class_add_def)

subsection \<open>The id of the indicator\<close>

lemma count_id_append: "count_id i (xs @ ys) = count_id i xs + count_id i ys"
  by (induction i xs rule: count_id.induct) auto

lemma getElementById_None_iff: "getElementById i ns = None \<longleftrightarrow> count_id i ns = 0"
  by (induction i ns rule: getElementById.induct) (auto split: option.splits)

lemma getElementById_append:
  "getElementById i (xs @ ys) =
     (case getElementById i xs of None \<Rightarrow> getElementById i ys | Some n \<Rightarrow> Some n)"
  by (induction i xs rule: getElementById.induct) (auto split: option.splits)

lemma count_id_detach: "count_id i ns \<le> 1 \<Longrightarrow> count_id i (detach i ns) = 0"
proof (induction i ns rule: detach.induct)
  case (1 i)
  then show ?case by simp
next
  case (2 i t ns)
  then show ?case by simp
next
  case (3 i tg j cs ks ns)
  show ?case
  proof (cases "j = i")
    case True
    with 3 show ?thesis by simp
  next
    case False
    show ?thesis
    proof (cases "getElementById i ks = None")
      case True
      then have "count_id i ks = 0" by (simp add: getElementById_None_iff)
      with 3 False True show ?thesis by simp
    next
      case some: False
      then have "count_id i ks \<noteq> 0" by (simp add: getElementById_None_iff)
      with "3.prems" False have k: "count_id i ks \<le> 1" and n: "count_id i ns = 0" by auto
      from "3.IH"(1) [OF False some k] n False some show ?thesis by simp
    qed
  qed
qed

lemma count_message:
  "count_id ''typing-indicator'' [message_element parse t sender] =
     count_id ''typing-indicator'' (parse (content_html t))"
  by (simp add: message_element_def)

lemma awaiting_pending: "awaiting u s \<longleftrightarrow> 0 < pending u s"
  by (auto simp: awaiting_def pending_def filter_empty_conv length_greater_0_conv [symmetric]
      simp del: length_greater_0_conv)

lemma filter_answered_other:
  "u \<noteq> w \<Longrightarrow> filter (\<lambda>r. req_url r = w) (answered u rs) = filter (\<lambda>r. req_url r = w) rs"
  by (induction rs) auto

lemma length_filter_answered:
  "length (filter (\<lambda>r. req_url r = u) (answered u rs)) =
     length (filter (\<lambda>r. req_url r = u) rs) - 1"
  by (induction rs) auto

lemma removed_nodes_append: "removed_nodes (xs @ ys) = removed_nodes xs @ removed_nodes ys"
  by (induction xs rule: removed_nodes.induct) auto

lemma removed_nodes_removal:
  "removed_nodes (removal s) =
     (case getElementById ''typing-indicator'' (chat_messages s) of None \<Rightarrow> [] | Some n \<Rightarrow> [n])"
  by (simp add: removal_def split: option.splits)

lemma removal_absent: "count_id ''typing-indicator'' (chat_messages s) = 0 \<Longrightarrow> removal s = []"
  by (simp add: removal_def getElementById_None_iff [symmetric])

lemma removeTypingIndicator_fields:
  "input_value (removeTypingIndicator s) = input_value s"
  "input_disabled (removeTypingIndicator s) = input_disabled s"
  "in_flight (removeTypingIndicator s) = in_flight s"
  by (simp_all add: removeTypingIndicator_def split: option.splits)

lemma reply_fields:
  "input_value (submit_finally (appendChild m s)) = input_value s"
  "in_flight (submit_finally (appendChild m s)) = in_flight s"
  "input_value (submit_finally (console_error e (appendChild m s))) = input_value s"
  "in_flight (submit_finally (console_error e (appendChild m s))) = in_flight s"
  by (simp_all add: submit_finally_def input_focus_def set_input_disabled_def appendChild_def
      console_error_def)

text \<open>The three shapes of what the submit handler does after its wait.\<close>

lemma submit_resume_reply:
  "submit_resume parse r s =
     Normal (submit_finally (appendChild (message_element parse (reply_text r) ''ai'')
       (removeTypingIndicator s))) \<or>
   (\<exists>e. submit_resume parse r s =
     Normal (submit_finally (console_error e
       (appendChild (message_element parse (reply_text r) ''ai'') (removeTypingIndicator s))))) \<or>
   (\<exists>e. submit_resume parse r s =
     Normal (submit_finally (console_error e
       (appendChild (message_element parse (reply_text r) ''ai'')
          (removeTypingIndicator (removeTypingIndicator s))))))"
proof (cases r)
  case (Rejected e)
  then show ?thesis using submit_resume_rejected [of parse e s] by (auto simp: reply_text_def)
next
  case (Response status b)
  show ?thesis
  proof (cases b)
    case (Inl e)
    with Response show ?thesis
      using submit_resume_unparsed [of parse status e s] by (auto simp: reply_text_def)
  next
    case (Inr data)
    show ?thesis
    proof (cases "get_prop data ''response''")
      case (Inl e)
      with Response Inr show ?thesis
        using submit_resume_throwing [of data e _ parse status s] by (auto simp: reply_text_def)
    next
      case v: (Inr v)
      show ?thesis
      proof (cases "truthy v")
        case False
        with Response Inr v show ?thesis
          using submit_resume_falsy [of data v parse status s] by (auto simp: reply_text_def)
      next
        case True
        show ?thesis
        proof (cases "to_string v")
          case (Inl e)
          with Response Inr v True show ?thesis
            using submit_resume_throwing [of data e v parse status s]
            by (auto simp: reply_text_def)
        next
          case t: (Inr t)
          with Response Inr v True show ?thesis
            using submit_resume_text [of data v t parse status s] by (auto simp: reply_text_def)
        qed
      qed
    qed
  qed
qed

text \<open>What the submit handler leaves, on each of its paths, when at most one element has the id.\<close>

lemma settle_facts:
  assumes c: "count_id ''typing-indicator'' (chat_messages s) \<le> 1"
  shows "inert parse (reply_text r) \<Longrightarrow>
           count_id ''typing-indicator'' (chat_messages (page_of (submit_resume parse r s))) = 0"
    and "removed_nodes (new_effects s (page_of (submit_resume parse r s))) =
           (case getElementById ''typing-indicator'' (chat_messages s) of
              None \<Rightarrow> [] | Some n \<Rightarrow> [n])"
    and "input_value (page_of (submit_resume parse r s)) = input_value s"
    and "in_flight (page_of (submit_resume parse r s)) = in_flight s"
    and "chat_messages (page_of (submit_resume parse r s)) =
           detach ''typing-indicator'' (chat_messages s) @
           [message_element parse (reply_text r) ''ai'']"
proof -
  have d0: "count_id ''typing-indicator'' (detach ''typing-indicator'' (chat_messages s)) = 0"
    using c by (rule count_id_detach)
  have twice: "removeTypingIndicator (removeTypingIndicator s) = removeTypingIndicator s"
    using d0
    by (simp add: removeTypingIndicator_def [of "removeTypingIndicator s"]
        chat_removeTypingIndicator getElementById_None_iff [symmetric])
  have shape:
    "submit_resume parse r s =
       Normal (submit_finally (appendChild (message_element parse (reply_text r) ''ai'')
         (removeTypingIndicator s))) \<or>
     (\<exists>e. submit_resume parse r s =
       Normal (submit_finally (console_error e
         (appendChild (message_element parse (reply_text r) ''ai'') (removeTypingIndicator s)))))"
    using submit_resume_reply [of parse r s] by (auto simp: twice)
  from shape show ch: "chat_messages (page_of (submit_resume parse r s)) =
           detach ''typing-indicator'' (chat_messages s) @
           [message_element parse (reply_text r) ''ai'']"
    by (auto simp: chat_reply chat_failure)
  show "count_id ''typing-indicator'' (chat_messages (page_of (submit_resume parse r s))) = 0"
    if "inert parse (reply_text r)"
    using that d0 by (simp add: ch count_id_append count_message inert_def)
  from shape show "removed_nodes (new_effects s (page_of (submit_resume parse r s))) =
           (case getElementById ''typing-indicator'' (chat_messages s) of
              None \<Rightarrow> [] | Some n \<Rightarrow> [n])"
    by (auto simp: effects_reply effects_failure removed_nodes_append removed_nodes_removal)
  from shape show "input_value (page_of (submit_resume parse r s)) = input_value s"
    by (auto simp: reply_fields removeTypingIndicator_fields)
  from shape show "in_flight (page_of (submit_resume parse r s)) = in_flight s"
    by (auto simp: reply_fields removeTypingIndicator_fields)
qed

subsection \<open>The indicator as the first element with its id\<close>

lemma detach_append_absent: "count_id i xs = 0 \<Longrightarrow> detach i (xs @ ys) = xs @ detach i ys"
  by (induction i xs rule: detach.induct) (auto simp: getElementById_None_iff)

lemma indicator_first:
  assumes "chat_messages s = pre @ typing_indicator parse # post"
    and "count_id ''typing-indicator'' pre = 0"
  shows "detach ''typing-indicator'' (chat_messages s) = pre @ post"
    and "removal s = [Removed (typing_indicator parse)]"
  using assms
  by (simp_all add: detach_append_absent removal_def getElementById_append
      getElementById_None_iff [symmetric] typing_indicator_def)

lemma trim_injected:
  \<open>trim ''<i id="typing-indicator"></i>'' = ''<i id="typing-indicator"></i>''\<close>
  by (simp add: trim_def is_space_def)

subsection \<open>The invariant holds after every event\<close>

lemma submit_begin_blank: "trim (input_value s) = [] \<Longrightarrow> submit_begin parse s = Normal s"
  by (simp add: submit_begin_def)

lemma submit_begin_sent:
  assumes "trim (input_value s) \<noteq> []"
  shows "chat_messages (page_of (submit_begin parse s)) =
           chat_messages s @
           [message_element parse (trim (input_value s)) ''user'', typing_indicator parse]"
    and "input_value (page_of (submit_begin parse s)) = []"
    and "input_disabled (page_of (submit_begin parse s))"
    and "in_flight (page_of (submit_begin parse s)) =
           in_flight s @ [chat_request (trim (input_value s))]"
  using assms
  by (simp_all add: submit_begin_def Let_def addMessage_string fetch_def showTypingIndicator_def
      set_input_disabled_def set_input_value_def appendChild_def)

lemma trim_Nil: "trim [] = []"
  by (simp add: trim_def)

lemma refresh_begin_fields:
  "chat_messages (refresh_begin s) = chat_messages s"
  "input_value (refresh_begin s) = input_value s"
  "input_disabled (refresh_begin s) = input_disabled s"
  "in_flight (refresh_begin s) = in_flight s @ [refresh_request]"
  by (simp_all add: refresh_begin_def fetch_def refresh_class_add_def set_refresh_disabled_def)

lemma refresh_done_fields:
  "chat_messages (refresh_finally (show_text t s)) = chat_messages s"
  "input_value (refresh_finally (show_text t s)) = input_value s"
  "input_disabled (refresh_finally (show_text t s)) = input_disabled s"
  "in_flight (refresh_finally (show_text t s)) = in_flight s"
  by (simp_all add: refresh_finally_def show_text_def refresh_class_remove_def
      set_refresh_disabled_def setTimeout_def toast_class_add_def set_toast_text_def)

lemma timeouts_fields:
  "chat_messages (foldr (\<lambda>due. toast_timeout) ds s) = chat_messages s"
  "input_value (foldr (\<lambda>due. toast_timeout) ds s) = input_value s"
  "input_disabled (foldr (\<lambda>due. toast_timeout) ds s) = input_disabled s"
  "in_flight (foldr (\<lambda>due. toast_timeout) ds s) = in_flight s"
  by (induction ds; simp add: toast_timeout_def toast_class_remove_def)+

lemma advance_fields:
  "chat_messages (advance d s) = chat_messages s"
  "input_value (advance d s) = input_value s"
  "input_disabled (advance d s) = input_disabled s"
  "in_flight (advance d s) = in_flight s"
  by (simp_all add: advance_def Let_def timeouts_fields)

text \<open>The invariant reads three fields of the page, and of the requests only those to the chat.\<close>

lemma indicator_inv_frame:
  assumes "chat_messages s' = chat_messages s" "input_value s' = input_value s"
    "input_disabled s' = input_disabled s"
    "filter (\<lambda>r. req_url r = ''/api/chat'') (in_flight s') =
     filter (\<lambda>r. req_url r = ''/api/chat'') (in_flight s)"
  shows "indicator_inv parse s' = indicator_inv parse s"
  using assms by (simp add: indicator_inv_def awaiting_pending pending_def)

lemma indicator_inv_step:
  assumes ci: "count_id ''typing-indicator'' (parse indicator_html) = 0"
    and rn: "list_all (inert parse) (rendered e s)"
    and inv: "indicator_inv parse s"
  shows "indicator_inv parse (step parse e s)"
proof (cases e)
  case (UserTypes v)
  show ?thesis
  proof (cases "input_disabled s")
    case True
    with UserTypes inv show ?thesis by simp
  next
    case False
    with inv have "\<not> awaiting ''/api/chat'' s" and "count_id ''typing-indicator'' (chat_messages s) = 0"
      by (auto simp: indicator_inv_def split: if_splits)
    with UserTypes False show ?thesis
      by (simp add: indicator_inv_def awaiting_def)
  qed
next
  case SubmitForm
  show ?thesis
  proof (cases "trim (input_value s) = []")
    case True
    with SubmitForm inv show ?thesis by (simp add: submit_begin_blank)
  next
    case False
    then have ne: "input_value s \<noteq> []" by (auto simp: trim_Nil)
    with inv have idle: "\<not> awaiting ''/api/chat'' s"
      and c0: "count_id ''typing-indicator'' (chat_messages s) = 0"
      by (auto simp: indicator_inv_def split: if_splits)
    have iq: "inert parse (trim (input_value s))"
      using rn SubmitForm False by simp
    from idle have p0: "pending ''/api/chat'' s = 0" by (simp add: awaiting_pending)
    have cm: "count_id ''typing-indicator'' [message_element parse (trim (input_value s)) ''user''] = 0"
      using iq by (simp add: count_message inert_def)
    have g: "getElementById ''typing-indicator''
               (chat_messages s @
                [message_element parse (trim (input_value s)) ''user'', typing_indicator parse]) =
             Some (typing_indicator parse)"
      using c0 cm
      by (simp add: getElementById_append getElementById_None_iff [symmetric]
          typing_indicator_def message_element_def class_add_def)
    have n: "count_id ''typing-indicator''
               (chat_messages s @
                [message_element parse (trim (input_value s)) ''user'', typing_indicator parse]) = 1"
      using c0 cm ci
      by (simp add: count_id_append typing_indicator_def message_element_def)
    show ?thesis
      using SubmitForm g n p0
      by (simp add: indicator_inv_def submit_begin_sent [OF False] awaiting_def pending_def
          chat_request_def)
  qed
next
  case (ChatSettles r)
  show ?thesis
  proof (cases "awaiting ''/api/chat'' s")
    case False
    with ChatSettles inv show ?thesis by simp
  next
    case True
    let ?s1 = "s\<lparr>in_flight := answered ''/api/chat'' (in_flight s)\<rparr>"
    from True inv have p1: "pending ''/api/chat'' s = 1"
      and c1: "count_id ''typing-indicator'' (chat_messages s) = 1"
      by (auto simp: indicator_inv_def)
    have c: "count_id ''typing-indicator'' (chat_messages ?s1) \<le> 1" using c1 by simp
    have ir: "inert parse (reply_text r)" using rn ChatSettles True by simp
    have p0: "pending ''/api/chat'' ?s1 = 0"
      using p1 by (simp add: pending_def length_filter_answered)
    show ?thesis
      using ChatSettles True settle_facts(1) [OF c ir] settle_facts(4) [OF c, of parse r] p0
      by (simp add: indicator_inv_def awaiting_pending pending_def)
  qed
next
  case RefreshClicked
  show ?thesis
  proof (cases "refresh_disabled s")
    case True
    with RefreshClicked inv show ?thesis by simp
  next
    case False
    have "indicator_inv parse (refresh_begin s) = indicator_inv parse s"
      by (rule indicator_inv_frame) (simp_all add: refresh_begin_fields refresh_request_def)
    with RefreshClicked False inv show ?thesis by simp
  qed
next
  case (RefreshSettles r)
  show ?thesis
  proof (cases "awaiting ''/api/refresh-data'' s")
    case False
    with RefreshSettles inv show ?thesis by simp
  next
    case True
    let ?s1 = "s\<lparr>in_flight := answered ''/api/refresh-data'' (in_flight s)\<rparr>"
    obtain t where b: "refresh_resume r ?s1 = Normal (refresh_finally (show_text t ?s1))"
      using refresh_resume_shows by blast
    have "indicator_inv parse (refresh_finally (show_text t ?s1)) = indicator_inv parse s"
      by (rule indicator_inv_frame) (simp_all add: refresh_done_fields filter_answered_other)
    with RefreshSettles True inv b show ?thesis by simp
  qed
next
  case (TimePasses d)
  have "indicator_inv parse (advance d s) = indicator_inv parse s"
    by (rule indicator_inv_frame) (simp_all add: advance_fields)
  with TimePasses inv show ?thesis by simp
qed

lemma indicator_inv_run:
  "count_id ''typing-indicator'' (parse indicator_html) = 0 \<Longrightarrow> inert_run parse evs s \<Longrightarrow>
   indicator_inv parse s \<Longrightarrow> indicator_inv parse (run parse evs s)"
proof (induction evs arbitrary: s)
  case Nil
  then show ?case by simp
next
  case (Cons e evs)
  from Cons.prems have "indicator_inv parse (step parse e s)"
    by (simp add: indicator_inv_step)
  with Cons show ?case by simp
qed

lemma idle_page_inv:
  "count_id ''typing-indicator'' (chat_messages s) = 0 \<Longrightarrow> pending ''/api/chat'' s = 0 \<Longrightarrow>
   indicator_inv parse s"
  by (simp add: indicator_inv_def awaiting_pending)

lemma inert_run_take: "inert_run parse evs s \<Longrightarrow> inert_run parse (take n evs) s"
proof (induction evs arbitrary: n s)
  case Nil
  then show ?case by simp
next
  case (Cons e evs)
  then show ?case by (cases n) simp_all
qed

lemma sample_indicator_markup:
  "count_id ''typing-indicator'' (sample_parse indicator_html) = 0"
  by (simp add: sample_parse_def sample_documents_def content_html_def indicator_html_def)

lemma trim_hi: "trim ''hi'' = ''hi''"
  by (simp add: trim_def is_space_def)

section \<open>The claims\<close>

subsection \<open>C1: one message and one request, or nothing\<close>

text \<open>
  C1. When the trimmed input is not empty, the submit handler does not throw and, up to
  the point where it waits for the answer, changes the page by exactly these effects, in
  this order: it appends one user message whose markup holds the trimmed input, clears and
  disables the field, appends the typing indicator and sends one request to
  \<^verbatim>\<open>/api/chat\<close> with the trimmed input as the query. Afterwards the log is the log before
  followed by that one user message and the typing indicator, the requests in flight are
  those before followed by that one request, and the field is empty and disabled. When
  the trimmed input is empty, which is so exactly when every character of the input is
  white space, the page is left as it was: no message, no request.
\<close>

theorem submit_appends_one_message_and_sends_one_request:
  "(trim (input_value s) \<noteq> [] \<longrightarrow>
      thrown (submit_begin parse s) = None \<and>
      new_effects s (page_of (submit_begin parse s)) =
        [Appended (Element ''div'' [] [''message'', ''user'']
                     (parse (content_html (trim (input_value s))))),
         InputValueSet [],
         InputDisabledSet True,
         Appended (typing_indicator parse),
         Fetched (chat_request (trim (input_value s)))] \<and>
      chat_messages (page_of (submit_begin parse s)) =
        chat_messages s @
        [Element ''div'' [] [''message'', ''user'']
           (parse (content_html (trim (input_value s)))),
         typing_indicator parse] \<and>
      in_flight (page_of (submit_begin parse s)) =
        in_flight s @ [chat_request (trim (input_value s))] \<and>
      input_value (page_of (submit_begin parse s)) = [] \<and>
      input_disabled (page_of (submit_begin parse s))) \<and>
   (trim (input_value s) = [] \<longrightarrow> submit_begin parse s = Normal s) \<and>
   (trim (input_value s) = [] \<longleftrightarrow> (\<forall>c \<in> set (input_value s). is_space c))"
  by (simp add: trim_empty_iff [symmetric] submit_begin_def addMessage_def Let_def new_effects_def
      appendChild_def set_input_value_def set_input_disabled_def showTypingIndicator_def
      fetch_def class_add_def message_element_def)

theorem submit_appends_one_message_and_sends_one_request_witness:
  "trim ''  hi '' = ''hi'' \<and>
   thrown (submit_begin sample_parse (sample_page\<lparr>input_value := ''  hi ''\<rparr>)) = None \<and>
   new_effects (sample_page\<lparr>input_value := ''  hi ''\<rparr>)
     (page_of (submit_begin sample_parse (sample_page\<lparr>input_value := ''  hi ''\<rparr>))) =
     [Appended (Element ''div'' [] [''message'', ''user'']
                  [Element ''div'' [] [''content''] [TextNode ''hi'']]),
      InputValueSet [],
      InputDisabledSet True,
      Appended (typing_indicator sample_parse),
      Fetched (Request ''/api/chat'' ''POST'' [(''Content-Type'', ''application/json'')]
                 (Some (JObj [(''query'', JStr ''hi'')])))] \<and>
   chat_messages
     (page_of (submit_begin sample_parse (sample_page\<lparr>input_value := ''  hi ''\<rparr>))) =
     [Element ''div'' [] [''message'', ''user'']
        [Element ''div'' [] [''content''] [TextNode ''hi'']],
      typing_indicator sample_parse] \<and>
   in_flight
     (page_of (submit_begin sample_parse (sample_page\<lparr>input_value := ''  hi ''\<rparr>))) =
     [Request ''/api/chat'' ''POST'' [(''Content-Type'', ''application/json'')]
        (Some (JObj [(''query'', JStr ''hi'')]))] \<and>
   input_value
     (page_of (submit_begin sample_parse (sample_page\<lparr>input_value := ''  hi ''\<rparr>))) = [] \<and>
   input_disabled
     (page_of (submit_begin sample_parse (sample_page\<lparr>input_value := ''  hi ''\<rparr>))) \<and>
   trim [CHR 0x20, CHR 0x09] = [] \<and>
   submit_begin sample_parse (sample_page\<lparr>input_value := [CHR 0x20, CHR 0x09]\<rparr>) =
     Normal (sample_page\<lparr>input_value := [CHR 0x20, CHR 0x09]\<rparr>)"
proof -
  have t1: "trim ''  hi '' = ''hi''" by (simp add: trim_def is_space_def)
  have t2: "trim [CHR 0x20, CHR 0x09] = []" by (simp add: trim_def is_space_def)
  show ?thesis
    using submit_appends_one_message_and_sends_one_request
            [of "sample_page\<lparr>input_value := ''  hi ''\<rparr>" sample_parse]
          submit_appends_one_message_and_sends_one_request
            [of "sample_page\<lparr>input_value := [CHR 0x20, CHR 0x09]\<rparr>" sample_parse]
    by (simp add: t1 t2 sample_parse_hi chat_request_def sample_page_def)
qed

subsection \<open>C2: the reply, or the apology\<close>

text \<open>
  C2, as stated, says that the typing indicator is removed before the reply is appended.
  What is removed is the first element in tree order with the id \<^verbatim>\<open>typing-indicator\<close>.
  When the query itself carried such an element, that element is removed from the user
  message and the indicator stays in the log, before the reply.
\<close>

theorem indicator_stays_after_reply:
  \<open>chat_messages (run sample_parse
     [UserTypes ''<i id="typing-indicator"></i>'', SubmitForm,
      ChatSettles (Response 200 (Inr (JObj [(''response'', JStr ''hi'')])))] sample_page) =
     [Element ''div'' [] [''message'', ''user''] [Element ''div'' [] [''content''] []],
      typing_indicator sample_parse,
      Element ''div'' [] [''message'', ''ai''] [Element ''div'' [] [''content''] [TextNode ''hi'']]]\<close>
  by (simp add: trim_injected sample_page_def submit_begin_def Let_def addMessage_def
      message_element_def class_add_def appendChild_def set_input_value_def
      set_input_disabled_def showTypingIndicator_def fetch_def chat_request_def awaiting_def
      submit_resume_def submit_try_def try_catch_finally_def removeTypingIndicator_def
      typing_indicator_def submit_finally_def input_focus_def
      sample_parse_injected sample_parse_hi)

text \<open>
  C2, amended. When the answer parses to an object whose \<^verbatim>\<open>response\<close> property is a string
  that is not empty, the handler removes the first element in tree order with the id
  \<^verbatim>\<open>typing-indicator\<close>, then appends an ai message built from that string, then runs its
  cleanup, and does not throw. When the property is absent or is the empty string, it
  does the same with the text \<^verbatim>\<open>Sorry, I encountered an error. Please try again.\<close> In
  both cases the log afterwards is the log before without that element, followed by the
  message. The element removed is the typing indicator whenever no element before the
  indicator in the log carries the id.
\<close>

theorem reply_text_is_response_field:
  "(map_of kvs ''response'' = Some (JStr t) \<and> t \<noteq> [] \<longrightarrow>
      submit_resume parse (Response status (Inr (JObj kvs))) s =
        Normal (submit_finally
          (appendChild (message_element parse t ''ai'') (removeTypingIndicator s))) \<and>
      chat_messages (page_of (submit_resume parse (Response status (Inr (JObj kvs))) s)) =
        detach ''typing-indicator'' (chat_messages s) @ [message_element parse t ''ai''] \<and>
      new_effects s (page_of (submit_resume parse (Response status (Inr (JObj kvs))) s)) =
        removal s @
        [Appended (message_element parse t ''ai''), InputDisabledSet False, InputFocused]) \<and>
   (map_of kvs ''response'' = None \<or> map_of kvs ''response'' = Some (JStr []) \<longrightarrow>
      submit_resume parse (Response status (Inr (JObj kvs))) s =
        Normal (submit_finally
          (appendChild
             (message_element parse ''Sorry, I encountered an error. Please try again.'' ''ai'')
             (removeTypingIndicator s))) \<and>
      chat_messages (page_of (submit_resume parse (Response status (Inr (JObj kvs))) s)) =
        detach ''typing-indicator'' (chat_messages s) @
        [message_element parse ''Sorry, I encountered an error. Please try again.'' ''ai''] \<and>
      new_effects s (page_of (submit_resume parse (Response status (Inr (JObj kvs))) s)) =
        removal s @
        [Appended
           (message_element parse ''Sorry, I encountered an error. Please try again.'' ''ai''),
         InputDisabledSet False, InputFocused]) \<and>
   (chat_messages s = pre @ typing_indicator parse # post \<and>
    count_id ''typing-indicator'' pre = 0 \<longrightarrow>
      detach ''typing-indicator'' (chat_messages s) = pre @ post \<and>
      removal s = [Removed (typing_indicator parse)])"
proof (intro conjI impI)
  assume h: "map_of kvs ''response'' = Some (JStr t) \<and> t \<noteq> []"
  then have g: "get_prop (JObj kvs) ''response'' = Inr (JStr t)" by simp
  have tr: "truthy (JStr t)" using h by simp
  show r: "submit_resume parse (Response status (Inr (JObj kvs))) s =
        Normal (submit_finally
          (appendChild (message_element parse t ''ai'') (removeTypingIndicator s)))"
    using submit_resume_text [OF g tr, of t] by simp
  show "chat_messages (page_of (submit_resume parse (Response status (Inr (JObj kvs))) s)) =
        detach ''typing-indicator'' (chat_messages s) @ [message_element parse t ''ai'']"
    by (simp add: r chat_reply)
  show "new_effects s (page_of (submit_resume parse (Response status (Inr (JObj kvs))) s)) =
        removal s @
        [Appended (message_element parse t ''ai''), InputDisabledSet False, InputFocused]"
    by (simp add: r effects_reply)
next
  assume h: "map_of kvs ''response'' = None \<or> map_of kvs ''response'' = Some (JStr [])"
  then obtain v where g: "get_prop (JObj kvs) ''response'' = Inr v" and f: "\<not> truthy v"
    by auto
  show r: "submit_resume parse (Response status (Inr (JObj kvs))) s =
        Normal (submit_finally
          (appendChild
             (message_element parse ''Sorry, I encountered an error. Please try again.'' ''ai'')
             (removeTypingIndicator s)))"
    using submit_resume_falsy [OF g f] by simp
  show "chat_messages (page_of (submit_resume parse (Response status (Inr (JObj kvs))) s)) =
        detach ''typing-indicator'' (chat_messages s) @
        [message_element parse ''Sorry, I encountered an error. Please try again.'' ''ai'']"
    by (simp add: r chat_reply)
  show "new_effects s (page_of (submit_resume parse (Response status (Inr (JObj kvs))) s)) =
        removal s @
        [Appended
           (message_element parse ''Sorry, I encountered an error. Please try again.'' ''ai''),
         InputDisabledSet False, InputFocused]"
    by (simp add: r effects_reply)
next
  assume h: "chat_messages s = pre @ typing_indicator parse # post \<and>
    count_id ''typing-indicator'' pre = 0"
  then show "detach ''typing-indicator'' (chat_messages s) = pre @ post"
    and "removal s = [Removed (typing_indicator parse)]"
    using indicator_first [of s pre parse post] by simp_all
qed

theorem reply_text_is_response_field_witness:
  "map_of [(''response'', JStr ''Hello'')] ''response'' = Some (JStr ''Hello'') \<and>
   chat_messages (sample_page\<lparr>chat_messages := [typing_indicator sample_parse]\<rparr>) =
     [] @ typing_indicator sample_parse # [] \<and>
   count_id ''typing-indicator'' [] = 0 \<and>
   removal (sample_page\<lparr>chat_messages := [typing_indicator sample_parse]\<rparr>) =
     [Removed (typing_indicator sample_parse)] \<and>
   chat_messages (page_of (submit_resume sample_parse
       (Response 200 (Inr (JObj [(''response'', JStr ''Hello'')])))
       (sample_page\<lparr>chat_messages := [typing_indicator sample_parse]\<rparr>))) =
     [Element ''div'' [] [''message'', ''ai'']
        [Element ''div'' [] [''content''] [TextNode ''Hello'']]] \<and>
   map_of ([] :: (string \<times> jsval) list) ''response'' = None \<and>
   chat_messages (page_of (submit_resume sample_parse (Response 200 (Inr (JObj [])))
       (sample_page\<lparr>chat_messages := [typing_indicator sample_parse]\<rparr>))) =
     [Element ''div'' [] [''message'', ''ai'']
        [Element ''div'' [] [''content'']
           [TextNode ''Sorry, I encountered an error. Please try again.'']]]"
proof -
  let ?s = "sample_page\<lparr>chat_messages := [typing_indicator sample_parse]\<rparr>"
  note w1 = reply_text_is_response_field
              [of "[(''response'', JStr ''Hello'')]" "''Hello''" sample_parse 200 ?s "[]" "[]"]
  note w2 = reply_text_is_response_field [of "[]" "[]" sample_parse 200 ?s "[]" "[]"]
  have h1: "map_of [(''response'', JStr ''Hello'')] ''response'' = Some (JStr ''Hello'') \<and>
            ''Hello'' \<noteq> []"
    by simp
  have h2: "map_of ([] :: (string \<times> jsval) list) ''response'' = None \<or>
            map_of ([] :: (string \<times> jsval) list) ''response'' = Some (JStr [])"
    by simp
  have h3: "chat_messages ?s = [] @ typing_indicator sample_parse # [] \<and>
            count_id ''typing-indicator'' [] = 0"
    by simp
  have a: "chat_messages (page_of (submit_resume sample_parse
             (Response 200 (Inr (JObj [(''response'', JStr ''Hello'')]))) ?s)) =
           detach ''typing-indicator'' (chat_messages ?s) @
           [message_element sample_parse ''Hello'' ''ai'']"
    using w1 h1 by blast
  have b: "chat_messages (page_of (submit_resume sample_parse (Response 200 (Inr (JObj []))) ?s)) =
           detach ''typing-indicator'' (chat_messages ?s) @
           [message_element sample_parse ''Sorry, I encountered an error. Please try again.'' ''ai'']"
    using w2 h2 by blast
  have c: "removal ?s = [Removed (typing_indicator sample_parse)]"
    using w2 h3 by blast
  show ?thesis
    unfolding a b c
    by (simp add: typing_indicator_def message_element_def class_add_def sample_parse_Hello
        sample_parse_sorry)
qed

subsection \<open>C3: a request that fails\<close>

text \<open>
  C3, as stated, says that the handler removes the typing indicator when the request
  fails. What it removes is the first element in tree order with the id
  \<^verbatim>\<open>typing-indicator\<close>. When the query itself carried such an element, that element is
  removed from the user message and the indicator stays in the log, before the message
  of the failure.
\<close>

theorem indicator_stays_after_failure:
  \<open>chat_messages (run sample_parse
     [UserTypes ''<i id="typing-indicator"></i>'', SubmitForm,
      ChatSettles (Rejected FetchFailed)] sample_page) =
     [Element ''div'' [] [''message'', ''user''] [Element ''div'' [] [''content''] []],
      typing_indicator sample_parse,
      Element ''div'' [] [''message'', ''ai'']
        [Element ''div'' [] [''content''] [TextNode ''Unable to connect to the server.'']]]\<close>
  by (simp add: trim_injected sample_page_def submit_begin_def Let_def addMessage_def
      message_element_def class_add_def appendChild_def set_input_value_def
      set_input_disabled_def showTypingIndicator_def fetch_def chat_request_def awaiting_def
      submit_resume_def submit_try_def submit_catch_def try_catch_finally_def
      removeTypingIndicator_def console_error_def
      typing_indicator_def submit_finally_def input_focus_def
      sample_parse_injected sample_parse_unable)

text \<open>
  C3, amended. When \<^verbatim>\<open>fetch\<close> rejects, or \<^verbatim>\<open>response.json()\<close> rejects, with an error \<open>e\<close>, the
  handler ends normally (nothing is thrown out of it): it removes the first element in
  tree order with the id \<^verbatim>\<open>typing-indicator\<close>, appends an ai message with the text
  \<^verbatim>\<open>Unable to connect to the server.\<close>, passes \<open>e\<close> to \<^verbatim>\<open>console.error\<close> and runs its
  cleanup. The log afterwards is the log before without that element, followed by the
  message; the effects are the removal, the append, the console entry, and the cleanup.
  The element removed is the typing indicator whenever no element before the indicator
  in the log carries the id.
\<close>

theorem failed_request_is_reported:
  "submit_resume parse (Rejected e) s =
     Normal (submit_finally (console_error e
       (appendChild (message_element parse ''Unable to connect to the server.'' ''ai'')
          (removeTypingIndicator s)))) \<and>
   submit_resume parse (Response status (Inl e)) s = submit_resume parse (Rejected e) s \<and>
   chat_messages (page_of (submit_resume parse (Rejected e) s)) =
     detach ''typing-indicator'' (chat_messages s) @
     [message_element parse ''Unable to connect to the server.'' ''ai''] \<and>
   new_effects s (page_of (submit_resume parse (Rejected e) s)) =
     removal s @
     [Appended (message_element parse ''Unable to connect to the server.'' ''ai''),
      ConsoleError e, InputDisabledSet False, InputFocused] \<and>
   (chat_messages s = pre @ typing_indicator parse # post \<and>
    count_id ''typing-indicator'' pre = 0 \<longrightarrow>
      detach ''typing-indicator'' (chat_messages s) = pre @ post \<and>
      removal s = [Removed (typing_indicator parse)])"
  using indicator_first [of s pre parse post]
  by (simp add: submit_resume_rejected submit_resume_unparsed chat_failure effects_failure)

theorem failed_request_is_reported_witness:
  "chat_messages (sample_page\<lparr>chat_messages := [typing_indicator sample_parse]\<rparr>) =
     [] @ typing_indicator sample_parse # [] \<and>
   count_id ''typing-indicator'' [] = 0 \<and>
   submit_resume sample_parse (Response 502 (Inl JsonSyntaxError))
     (sample_page\<lparr>chat_messages := [typing_indicator sample_parse]\<rparr>) =
   submit_resume sample_parse (Rejected JsonSyntaxError)
     (sample_page\<lparr>chat_messages := [typing_indicator sample_parse]\<rparr>) \<and>
   chat_messages (page_of (submit_resume sample_parse (Rejected JsonSyntaxError)
     (sample_page\<lparr>chat_messages := [typing_indicator sample_parse]\<rparr>))) =
     [Element ''div'' [] [''message'', ''ai'']
        [Element ''div'' [] [''content''] [TextNode ''Unable to connect to the server.'']]] \<and>
   new_effects (sample_page\<lparr>chat_messages := [typing_indicator sample_parse]\<rparr>)
     (page_of (submit_resume sample_parse (Rejected JsonSyntaxError)
        (sample_page\<lparr>chat_messages := [typing_indicator sample_parse]\<rparr>))) =
     [Removed (typing_indicator sample_parse),
      Appended (Element ''div'' [] [''message'', ''ai'']
        [Element ''div'' [] [''content''] [TextNode ''Unable to connect to the server.'']]),
      ConsoleError JsonSyntaxError, InputDisabledSet False, InputFocused]"
proof -
  let ?s = "sample_page\<lparr>chat_messages := [typing_indicator sample_parse]\<rparr>"
  let ?m = "message_element sample_parse ''Unable to connect to the server.'' ''ai''"
  note w = failed_request_is_reported [of sample_parse JsonSyntaxError ?s 502 "[]" "[]"]
  have a: "submit_resume sample_parse (Response 502 (Inl JsonSyntaxError)) ?s =
           submit_resume sample_parse (Rejected JsonSyntaxError) ?s"
    using w by blast
  have b: "chat_messages (page_of (submit_resume sample_parse (Rejected JsonSyntaxError) ?s)) =
           detach ''typing-indicator'' (chat_messages ?s) @ [?m]"
    using w by blast
  have c: "new_effects ?s (page_of (submit_resume sample_parse (Rejected JsonSyntaxError) ?s)) =
           removal ?s @ [Appended ?m, ConsoleError JsonSyntaxError, InputDisabledSet False, InputFocused]"
    using w by blast
  have h: "chat_messages ?s = [] @ typing_indicator sample_parse # [] \<and>
           count_id ''typing-indicator'' [] = 0"
    by simp
  have d: "removal ?s = [Removed (typing_indicator sample_parse)]"
    using w h by blast
  show ?thesis
    unfolding a b c d
    by (simp add: typing_indicator_def message_element_def class_add_def sample_parse_unable)
qed

subsection \<open>C4: the cleanup\<close>

text \<open>
  C4. Whatever a request comes to, the handler that waited for it ends normally and its
  last step is its \<^verbatim>\<open>finally\<close> block. After the submit handler the input field is enabled
  and has the focus; after the click handler the refresh button is enabled and its class
  list does not hold \<^verbatim>\<open>fa-spin\<close>.
\<close>

theorem cleanup_always_runs:
  "(\<exists>s1. submit_resume parse r s = Normal (submit_finally s1)) \<and>
   \<not> input_disabled (page_of (submit_resume parse r s)) \<and>
   input_focused (page_of (submit_resume parse r s)) \<and>
   (\<exists>s2. refresh_resume r' s = Normal (refresh_finally s2)) \<and>
   \<not> refresh_disabled (page_of (refresh_resume r' s)) \<and>
   ''fa-spin'' \<notin> set (refresh_classes (page_of (refresh_resume r' s)))"
proof -
  obtain s1 where a: "submit_resume parse r s = Normal (submit_finally s1)"
    using submit_resume_finally by blast
  obtain t where b: "refresh_resume r' s = Normal (refresh_finally (show_text t s))"
    using refresh_resume_shows by blast
  show ?thesis
    unfolding a b by (auto simp: input_after_submit button_after_refresh)
qed

subsection \<open>C5: one typing indicator\<close>

text \<open>
  C5, as stated, says that at most one typing indicator exists at every point and that
  each call removes it. A message whose markup carries an element with the id
  \<^verbatim>\<open>typing-indicator\<close> comes first in tree order: the answer to that query removes this
  element and leaves the indicator, and after the next query the log holds two
  indicators.
\<close>

theorem two_indicators_after_injected_id:
  \<open>removed_nodes (new_effects
     (run sample_parse [UserTypes ''<i id="typing-indicator"></i>'', SubmitForm] sample_page)
     (run sample_parse
        [UserTypes ''<i id="typing-indicator"></i>'', SubmitForm,
         ChatSettles (Response 200 (Inr (JObj [(''response'', JStr ''hi'')])))] sample_page)) =
     [Element ''i'' ''typing-indicator'' [] []] \<and>
   chat_messages (run sample_parse
     [UserTypes ''<i id="typing-indicator"></i>'', SubmitForm,
      ChatSettles (Response 200 (Inr (JObj [(''response'', JStr ''hi'')]))),
      UserTypes ''hi'', SubmitForm] sample_page) =
     [Element ''div'' [] [''message'', ''user''] [Element ''div'' [] [''content''] []],
      typing_indicator sample_parse,
      Element ''div'' [] [''message'', ''ai''] [Element ''div'' [] [''content''] [TextNode ''hi'']],
      Element ''div'' [] [''message'', ''user''] [Element ''div'' [] [''content''] [TextNode ''hi'']],
      typing_indicator sample_parse]\<close>
proof -
  have t: \<open>trim ''<i id="typing-indicator"></i>'' = ''<i id="typing-indicator"></i>''\<close>
    by (simp add: trim_def is_space_def)
  show ?thesis
    by (simp add: t trim_hi sample_page_def submit_begin_def Let_def addMessage_def
        message_element_def class_add_def appendChild_def set_input_value_def
        set_input_disabled_def showTypingIndicator_def fetch_def chat_request_def awaiting_def
        submit_resume_def submit_try_def try_catch_finally_def removeTypingIndicator_def
        typing_indicator_def submit_finally_def input_focus_def new_effects_def
        sample_parse_injected sample_parse_hi)
qed

text \<open>
  C5, amended. Take a parser for which the markup of the indicator itself yields no
  element with the id \<^verbatim>\<open>typing-indicator\<close>, a page on which the indicator and the query in
  flight go together (as on a page with no such element and no query in flight), and any
  sequence of events (typing, submitting, answers of either endpoint, clicks on the
  refresh button, the passing of time) in which every message text rendered is inert,
  that is, its markup yields no element with the id: the queries submitted, and the
  replies appended. What is typed and not submitted does not matter. Then at every point
  of the sequence at most one element has the id, and there are as many as queries in
  flight. Submitting an input that does not trim to nothing finds no such element and
  appends the user message and the typing indicator; when the query is inert, the log
  then holds exactly one element with the id, the typing indicator. The answer to the
  query in flight, whatever it is, removes exactly one node, the typing indicator, and
  appends the reply; when the reply is inert, no element with the id is left.
\<close>

theorem one_indicator_while_markup_is_inert:
  assumes "count_id ''typing-indicator'' (parse indicator_html) = 0"
    and "inert_run parse evs s0"
    and "indicator_inv parse s0"
  shows "(\<forall>n. count_id ''typing-indicator'' (chat_messages (run parse (take n evs) s0)) \<le> 1 \<and>
         count_id ''typing-indicator'' (chat_messages (run parse (take n evs) s0)) =
           pending ''/api/chat'' (run parse (take n evs) s0)) \<and>
    (trim (input_value (run parse evs s0)) \<noteq> [] \<longrightarrow>
       count_id ''typing-indicator'' (chat_messages (run parse evs s0)) = 0 \<and>
       chat_messages (step parse SubmitForm (run parse evs s0)) =
         chat_messages (run parse evs s0) @
         [message_element parse (trim (input_value (run parse evs s0))) ''user'',
          typing_indicator parse] \<and>
       (inert parse (trim (input_value (run parse evs s0))) \<longrightarrow>
          count_id ''typing-indicator''
            (chat_messages (step parse SubmitForm (run parse evs s0))) = 1 \<and>
          getElementById ''typing-indicator''
            (chat_messages (step parse SubmitForm (run parse evs s0))) =
            Some (typing_indicator parse))) \<and>
    (awaiting ''/api/chat'' (run parse evs s0) \<longrightarrow>
       removed_nodes (new_effects (run parse evs s0) (step parse (ChatSettles r) (run parse evs s0))) =
         [typing_indicator parse] \<and>
       chat_messages (step parse (ChatSettles r) (run parse evs s0)) =
         detach ''typing-indicator'' (chat_messages (run parse evs s0)) @
         [message_element parse (reply_text r) ''ai''] \<and>
       (inert parse (reply_text r) \<longrightarrow>
          count_id ''typing-indicator''
            (chat_messages (step parse (ChatSettles r) (run parse evs s0))) = 0))"
proof -
  let ?s = "run parse evs s0"
  have inv_at: "indicator_inv parse (run parse (take n evs) s0)" for n
    using assms(1) inert_run_take [OF assms(2)] assms(3) by (rule indicator_inv_run)
  have inv: "indicator_inv parse ?s"
    using inv_at [of "length evs"] by simp
  have a: "count_id ''typing-indicator'' (chat_messages (run parse (take n evs) s0)) \<le> 1 \<and>
         count_id ''typing-indicator'' (chat_messages (run parse (take n evs) s0)) =
           pending ''/api/chat'' (run parse (take n evs) s0)" for n
    using inv_at [of n] by (auto simp: indicator_inv_def awaiting_pending split: if_splits)
  have c: "count_id ''typing-indicator'' (chat_messages ?s) = 0 \<and>
       chat_messages (step parse SubmitForm ?s) =
         chat_messages ?s @
         [message_element parse (trim (input_value ?s)) ''user'', typing_indicator parse] \<and>
       (inert parse (trim (input_value ?s)) \<longrightarrow>
          count_id ''typing-indicator'' (chat_messages (step parse SubmitForm ?s)) = 1 \<and>
          getElementById ''typing-indicator'' (chat_messages (step parse SubmitForm ?s)) =
            Some (typing_indicator parse))"
    if ne: "trim (input_value ?s) \<noteq> []"
  proof -
    from ne have "input_value ?s \<noteq> []" by (auto simp: trim_Nil)
    with inv have idle: "count_id ''typing-indicator'' (chat_messages ?s) = 0"
      by (auto simp: indicator_inv_def split: if_splits)
    have aw: "awaiting ''/api/chat'' (step parse SubmitForm ?s)"
      by (simp add: awaiting_def submit_begin_sent [OF ne] chat_request_def)
    have "indicator_inv parse (step parse SubmitForm ?s)"
      if "inert parse (trim (input_value ?s))"
      using assms(1) _ inv by (rule indicator_inv_step) (simp add: that)
    then show ?thesis
      using idle aw by (simp add: indicator_inv_def submit_begin_sent [OF ne])
  qed
  have d: "removed_nodes (new_effects ?s (step parse (ChatSettles r) ?s)) = [typing_indicator parse] \<and>
       chat_messages (step parse (ChatSettles r) ?s) =
         detach ''typing-indicator'' (chat_messages ?s) @
         [message_element parse (reply_text r) ''ai''] \<and>
       (inert parse (reply_text r) \<longrightarrow>
          count_id ''typing-indicator'' (chat_messages (step parse (ChatSettles r) ?s)) = 0)"
    if aw: "awaiting ''/api/chat'' ?s"
  proof -
    let ?s1 = "?s\<lparr>in_flight := answered ''/api/chat'' (in_flight ?s)\<rparr>"
    from aw inv have c1: "count_id ''typing-indicator'' (chat_messages ?s1) \<le> 1"
      and g: "getElementById ''typing-indicator'' (chat_messages ?s1) = Some (typing_indicator parse)"
      by (auto simp: indicator_inv_def)
    have e: "new_effects ?s x = new_effects ?s1 x" for x by (simp add: new_effects_def)
    show ?thesis
      using aw settle_facts(1,2,5) [OF c1, of parse r] g by (simp add: e)
  qed
  show ?thesis using a c d by blast
qed

theorem one_indicator_while_markup_is_inert_witness:
  \<open>count_id ''typing-indicator'' (sample_parse indicator_html) = 0 \<and>
   inert_run sample_parse
     [UserTypes ''<i id="typing-indicator"></i>'', UserTypes ''hi'', SubmitForm] sample_page \<and>
   indicator_inv sample_parse sample_page \<and>
   count_id ''typing-indicator'' (chat_messages sample_page) = 0 \<and>
   pending ''/api/chat'' sample_page = 0 \<and>
   trim (input_value (run sample_parse
     [UserTypes ''<i id="typing-indicator"></i>'', UserTypes ''hi''] sample_page)) = ''hi'' \<and>
   inert sample_parse ''hi'' \<and>
   count_id ''typing-indicator''
     (chat_messages (step sample_parse SubmitForm (run sample_parse
        [UserTypes ''<i id="typing-indicator"></i>'', UserTypes ''hi''] sample_page))) = 1 \<and>
   awaiting ''/api/chat'' (run sample_parse
     [UserTypes ''<i id="typing-indicator"></i>'', UserTypes ''hi'', SubmitForm] sample_page) \<and>
   count_id ''typing-indicator''
     (chat_messages (run sample_parse
        [UserTypes ''<i id="typing-indicator"></i>'', UserTypes ''hi'', SubmitForm] sample_page)) = 1 \<and>
   reply_text (Response 200 (Inr (JObj [(''response'', JStr ''Hello'')]))) = ''Hello'' \<and>
   inert sample_parse ''Hello'' \<and>
   removed_nodes (new_effects
     (run sample_parse
        [UserTypes ''<i id="typing-indicator"></i>'', UserTypes ''hi'', SubmitForm] sample_page)
     (step sample_parse (ChatSettles (Response 200 (Inr (JObj [(''response'', JStr ''Hello'')]))))
        (run sample_parse
           [UserTypes ''<i id="typing-indicator"></i>'', UserTypes ''hi'', SubmitForm]
           sample_page))) =
     [typing_indicator sample_parse] \<and>
   count_id ''typing-indicator''
     (chat_messages
        (step sample_parse (ChatSettles (Response 200 (Inr (JObj [(''response'', JStr ''Hello'')]))))
           (run sample_parse
              [UserTypes ''<i id="typing-indicator"></i>'', UserTypes ''hi'', SubmitForm]
              sample_page))) = 0\<close>
proof -
  let ?x = \<open>''<i id="typing-indicator"></i>''\<close>
  let ?typed = "[UserTypes ?x, UserTypes ''hi'']"
  let ?sent = "[UserTypes ?x, UserTypes ''hi'', SubmitForm]"
  let ?r = "Response 200 (Inr (JObj [(''response'', JStr ''Hello'')]))"
  have h1: "count_id ''typing-indicator'' (sample_parse indicator_html) = 0"
    by (rule sample_indicator_markup)
  have ih: "inert sample_parse ''hi''"
    by (simp add: inert_def sample_parse_hi)
  have iH: "inert sample_parse ''Hello''"
    by (simp add: inert_def sample_parse_Hello)
  have rt: "reply_text ?r = ''Hello''"
    by (simp add: reply_text_def)
  have h2a: "inert_run sample_parse ?typed sample_page"
    by simp
  have h2b: "inert_run sample_parse ?sent sample_page"
    by (simp add: sample_page_def trim_hi ih)
  have h3: "indicator_inv sample_parse sample_page"
    and h3': "count_id ''typing-indicator'' (chat_messages sample_page) = 0"
      "pending ''/api/chat'' sample_page = 0"
    by (simp_all add: indicator_inv_def sample_page_def awaiting_def pending_def)
  have v: "trim (input_value (run sample_parse ?typed sample_page)) = ''hi''"
    by (simp add: sample_page_def trim_hi)
  have aw: "awaiting ''/api/chat'' (run sample_parse ?sent sample_page)"
    by (simp add: sample_page_def trim_hi submit_begin_def Let_def addMessage_def fetch_def
        showTypingIndicator_def set_input_disabled_def set_input_value_def appendChild_def
        awaiting_def chat_request_def)
  have p: "pending ''/api/chat'' (run sample_parse ?sent sample_page) = 1"
    by (simp add: sample_page_def trim_hi submit_begin_def Let_def addMessage_def fetch_def
        showTypingIndicator_def set_input_disabled_def set_input_value_def appendChild_def
        pending_def chat_request_def)
  note w1 = one_indicator_while_markup_is_inert [OF h1 h2a h3]
  note w2 = one_indicator_while_markup_is_inert [OF h1 h2b h3, of ?r]
  have ne: "trim (input_value (run sample_parse ?typed sample_page)) \<noteq> []"
    and iv: "inert sample_parse (trim (input_value (run sample_parse ?typed sample_page)))"
    using v ih by simp_all
  have ir: "inert sample_parse (reply_text ?r)"
    using rt iH by simp
  have a: "count_id ''typing-indicator''
             (chat_messages (step sample_parse SubmitForm (run sample_parse ?typed sample_page))) = 1"
    using w1 ne iv by blast
  have b: "count_id ''typing-indicator'' (chat_messages (run sample_parse ?sent sample_page)) = 1"
  proof -
    have "count_id ''typing-indicator''
            (chat_messages (run sample_parse (take 3 ?sent) sample_page)) =
          pending ''/api/chat'' (run sample_parse (take 3 ?sent) sample_page)"
      using w2 by blast
    then show ?thesis using p by simp
  qed
  have c: "removed_nodes (new_effects (run sample_parse ?sent sample_page)
             (step sample_parse (ChatSettles ?r) (run sample_parse ?sent sample_page))) =
           [typing_indicator sample_parse]"
    and d: "count_id ''typing-indicator''
             (chat_messages (step sample_parse (ChatSettles ?r)
                (run sample_parse ?sent sample_page))) = 0"
    using w2 aw ir by blast+
  show ?thesis
    using h1 h2b h3 h3' v ih aw rt iH a b c d by simp
qed

subsection \<open>C6: the text of the toast\<close>

text \<open>
  C6, as stated, says that the toast shows the \<^verbatim>\<open>message\<close> field whenever it is a value
  that is not empty, and the text of the failure on a transport failure. A \<^verbatim>\<open>message\<close>
  that is an object with an own property \<^verbatim>\<open>toString\<close> is such a value: its conversion
  to a string throws, and the toast shows \<^verbatim>\<open>Failed to refresh data.\<close> though the request
  and the parse succeeded. A \<^verbatim>\<open>message\<close> of 0 is present, and the toast shows
  \<^verbatim>\<open>Data refreshed!\<close>
\<close>

theorem toast_for_message_that_is_no_string:
  "toast_text (page_of (refresh_resume
     (Response 200 (Inr (JObj [(''message'', JObj [(''toString'', JNum ''1'')])]))) sample_page)) =
     ''Failed to refresh data.'' \<and>
   toast_text (page_of (refresh_resume
     (Response 200 (Inr (JObj [(''message'', JNum ''0'')]))) sample_page)) = ''Data refreshed!''"
  by (simp add: refresh_resume_def refresh_try_def refresh_catch_def try_catch_finally_def
      showToast_def show_text_def setTimeout_def toast_class_add_def set_toast_text_def
      refresh_finally_def refresh_class_remove_def set_refresh_disabled_def)

text \<open>
  C6, amended. In every case the handler ends normally with the toast visible, and its
  text is as follows. When the answer parses to a value whose \<^verbatim>\<open>message\<close> property is
  truthy and converts to a string, the toast shows that string: for a string that is not
  empty, the string itself. When the property is absent or falsy (the empty string, 0,
  \<^verbatim>\<open>false\<close>, \<^verbatim>\<open>null\<close>), the toast shows \<^verbatim>\<open>Data refreshed!\<close> The toast shows
  \<^verbatim>\<open>Failed to refresh data.\<close> when \<^verbatim>\<open>fetch\<close> or \<^verbatim>\<open>response.json()\<close> rejects, when reading the
  property throws (the parsed body is \<^verbatim>\<open>null\<close>), and when the property is truthy and its
  conversion to a string throws. These cases are all there are.
\<close>

theorem toast_text_after_refresh:
  "(map_of kvs ''message'' = Some (JStr t) \<and> t \<noteq> [] \<longrightarrow>
      refresh_resume (Response status (Inr (JObj kvs))) s =
        Normal (refresh_finally (show_text t s)) \<and>
      toast_text (page_of (refresh_resume (Response status (Inr (JObj kvs))) s)) = t \<and>
      toast_visible (page_of (refresh_resume (Response status (Inr (JObj kvs))) s))) \<and>
   (map_of kvs ''message'' = None \<or> map_of kvs ''message'' = Some (JStr []) \<longrightarrow>
      refresh_resume (Response status (Inr (JObj kvs))) s =
        Normal (refresh_finally (show_text ''Data refreshed!'' s)) \<and>
      toast_text (page_of (refresh_resume (Response status (Inr (JObj kvs))) s)) =
        ''Data refreshed!'' \<and>
      toast_visible (page_of (refresh_resume (Response status (Inr (JObj kvs))) s))) \<and>
   (get_prop data ''message'' = Inr v \<and> truthy v \<and> to_string v = Inr t' \<longrightarrow>
      refresh_resume (Response status (Inr data)) s =
        Normal (refresh_finally (show_text t' s)) \<and>
      toast_text (page_of (refresh_resume (Response status (Inr data)) s)) = t') \<and>
   (get_prop data ''message'' = Inr v \<and> \<not> truthy v \<longrightarrow>
      refresh_resume (Response status (Inr data)) s =
        Normal (refresh_finally (show_text ''Data refreshed!'' s)) \<and>
      toast_text (page_of (refresh_resume (Response status (Inr data)) s)) =
        ''Data refreshed!'') \<and>
   (get_prop data ''message'' = Inl e \<or>
    (get_prop data ''message'' = Inr v \<and> truthy v \<and> to_string v = Inl e) \<longrightarrow>
      refresh_resume (Response status (Inr data)) s =
        Normal (refresh_finally (show_text ''Failed to refresh data.'' s)) \<and>
      toast_text (page_of (refresh_resume (Response status (Inr data)) s)) =
        ''Failed to refresh data.'') \<and>
   ((\<exists>e. get_prop data ''message'' = Inl e) \<longleftrightarrow> data = JNull \<or> data = JUndefined) \<and>
   refresh_resume (Rejected e) s =
     Normal (refresh_finally (show_text ''Failed to refresh data.'' s)) \<and>
   refresh_resume (Response status (Inl e)) s = refresh_resume (Rejected e) s \<and>
   toast_text (page_of (refresh_resume (Rejected e) s)) = ''Failed to refresh data.'' \<and>
   toast_visible (page_of (refresh_resume (Rejected e) s)) \<and>
   (\<exists>shown. refresh_resume r s = Normal (refresh_finally (show_text shown s)) \<and>
      toast_text (page_of (refresh_resume r s)) = shown \<and>
      toast_visible (page_of (refresh_resume r s)))"
proof (intro conjI impI)
  assume h: "map_of kvs ''message'' = Some (JStr t) \<and> t \<noteq> []"
  then have g: "get_prop (JObj kvs) ''message'' = Inr (JStr t)" by simp
  have tr: "truthy (JStr t)" using h by simp
  show r: "refresh_resume (Response status (Inr (JObj kvs))) s =
        Normal (refresh_finally (show_text t s))"
    using refresh_resume_text [OF g tr, of t] by simp
  show "toast_text (page_of (refresh_resume (Response status (Inr (JObj kvs))) s)) = t"
    by (simp add: r toast_after_refresh)
  show "toast_visible (page_of (refresh_resume (Response status (Inr (JObj kvs))) s))"
    by (simp add: r toast_after_refresh)
next
  assume h: "map_of kvs ''message'' = None \<or> map_of kvs ''message'' = Some (JStr [])"
  then obtain v where g: "get_prop (JObj kvs) ''message'' = Inr v" and f: "\<not> truthy v"
    by auto
  show r: "refresh_resume (Response status (Inr (JObj kvs))) s =
        Normal (refresh_finally (show_text ''Data refreshed!'' s))"
    using refresh_resume_falsy [OF g f] by simp
  show "toast_text (page_of (refresh_resume (Response status (Inr (JObj kvs))) s)) =
        ''Data refreshed!''"
    by (simp add: r toast_after_refresh)
  show "toast_visible (page_of (refresh_resume (Response status (Inr (JObj kvs))) s))"
    by (simp add: r toast_after_refresh)
next
  assume "get_prop data ''message'' = Inr v \<and> truthy v \<and> to_string v = Inr t'"
  then show r: "refresh_resume (Response status (Inr data)) s =
               Normal (refresh_finally (show_text t' s))"
    using refresh_resume_text [of data v t' status s] by simp
  show "toast_text (page_of (refresh_resume (Response status (Inr data)) s)) = t'"
    by (simp add: r toast_after_refresh)
next
  assume "get_prop data ''message'' = Inr v \<and> \<not> truthy v"
  then show r: "refresh_resume (Response status (Inr data)) s =
        Normal (refresh_finally (show_text ''Data refreshed!'' s))"
    using refresh_resume_falsy [of data v status s] by simp
  show "toast_text (page_of (refresh_resume (Response status (Inr data)) s)) =
        ''Data refreshed!''"
    by (simp add: r toast_after_refresh)
next
  assume "get_prop data ''message'' = Inl e \<or>
    (get_prop data ''message'' = Inr v \<and> truthy v \<and> to_string v = Inl e)"
  then show r: "refresh_resume (Response status (Inr data)) s =
        Normal (refresh_finally (show_text ''Failed to refresh data.'' s))"
    by (rule refresh_resume_throwing)
  show "toast_text (page_of (refresh_resume (Response status (Inr data)) s)) =
        ''Failed to refresh data.''"
    by (simp add: r toast_after_refresh)
next
  show "(\<exists>e. get_prop data ''message'' = Inl e) \<longleftrightarrow> data = JNull \<or> data = JUndefined"
    by (rule get_prop_throws_iff)
next
  obtain shown where b: "refresh_resume r s = Normal (refresh_finally (show_text shown s))"
    using refresh_resume_shows by blast
  show "\<exists>shown. refresh_resume r s = Normal (refresh_finally (show_text shown s)) \<and>
      toast_text (page_of (refresh_resume r s)) = shown \<and>
      toast_visible (page_of (refresh_resume r s))"
    by (rule exI [of _ shown]) (simp add: b toast_after_refresh)
qed (simp_all add: refresh_resume_rejected refresh_resume_unparsed toast_after_refresh)

theorem toast_text_after_refresh_witness:
  "map_of [(''message'', JStr ''Synced 42 rows'')] ''message'' = Some (JStr ''Synced 42 rows'') \<and>
   toast_text (page_of (refresh_resume
       (Response 200 (Inr (JObj [(''message'', JStr ''Synced 42 rows'')]))) sample_page)) =
     ''Synced 42 rows'' \<and>
   map_of ([] :: (string \<times> jsval) list) ''message'' = None \<and>
   toast_text (page_of (refresh_resume (Response 200 (Inr (JObj []))) sample_page)) =
     ''Data refreshed!'' \<and>
   toast_text (page_of (refresh_resume (Rejected FetchFailed) sample_page)) =
     ''Failed to refresh data.'' \<and>
   get_prop (JObj [(''message'', JNum ''42'')]) ''message'' = Inr (JNum ''42'') \<and>
   truthy (JNum ''42'') \<and> to_string (JNum ''42'') = Inr ''42'' \<and>
   toast_text (page_of (refresh_resume
       (Response 200 (Inr (JObj [(''message'', JNum ''42'')]))) sample_page)) = ''42'' \<and>
   get_prop (JObj [(''message'', JBool False)]) ''message'' = Inr (JBool False) \<and>
   \<not> truthy (JBool False) \<and>
   toast_text (page_of (refresh_resume
       (Response 200 (Inr (JObj [(''message'', JBool False)]))) sample_page)) =
     ''Data refreshed!'' \<and>
   get_prop JNull ''message'' = Inl TypeError \<and>
   toast_text (page_of (refresh_resume (Response 200 (Inr JNull)) sample_page)) =
     ''Failed to refresh data.''"
proof -
  note w = toast_text_after_refresh [where s = sample_page and status = 200]
  have h1: "map_of [(''message'', JStr ''Synced 42 rows'')] ''message'' =
              Some (JStr ''Synced 42 rows'') \<and> ''Synced 42 rows'' \<noteq> []"
    by simp
  have h2: "map_of ([] :: (string \<times> jsval) list) ''message'' = None \<or>
            map_of ([] :: (string \<times> jsval) list) ''message'' = Some (JStr [])"
    by simp
  have h3: "get_prop (JObj [(''message'', JNum ''42'')]) ''message'' = Inr (JNum ''42'') \<and>
            truthy (JNum ''42'') \<and> to_string (JNum ''42'') = Inr ''42''"
    by simp
  have h4: "get_prop (JObj [(''message'', JBool False)]) ''message'' = Inr (JBool False) \<and>
            \<not> truthy (JBool False)"
    by simp
  have h5: "get_prop JNull ''message'' = Inl TypeError \<or>
            (get_prop JNull ''message'' = Inr v \<and> truthy v \<and> to_string v = Inl TypeError)" for v
    by simp
  have a: "toast_text (page_of (refresh_resume
             (Response 200 (Inr (JObj [(''message'', JStr ''Synced 42 rows'')]))) sample_page)) =
           ''Synced 42 rows''"
    using w [where kvs = "[(''message'', JStr ''Synced 42 rows'')]" and t = "''Synced 42 rows''"] h1
    by blast
  have b: "toast_text (page_of (refresh_resume (Response 200 (Inr (JObj []))) sample_page)) =
           ''Data refreshed!''"
    using w [where kvs = "[]"] h2 by blast
  have c: "toast_text (page_of (refresh_resume (Rejected FetchFailed) sample_page)) =
           ''Failed to refresh data.''"
    using w [where e = FetchFailed] by blast
  have d: "toast_text (page_of (refresh_resume
             (Response 200 (Inr (JObj [(''message'', JNum ''42'')]))) sample_page)) = ''42''"
    using w [where data = "JObj [(''message'', JNum ''42'')]" and v = "JNum ''42''" and t' = "''42''"]
      h3
    by blast
  have f: "toast_text (page_of (refresh_resume
             (Response 200 (Inr (JObj [(''message'', JBool False)]))) sample_page)) =
           ''Data refreshed!''"
    using w [where data = "JObj [(''message'', JBool False)]" and v = "JBool False"] h4
    by blast
  have g: "toast_text (page_of (refresh_resume (Response 200 (Inr JNull)) sample_page)) =
           ''Failed to refresh data.''"
    using w [where data = JNull and e = TypeError] h5 by blast
  show ?thesis
    unfolding a b c d f g by simp
qed

subsection \<open>C7: how long the toast stays\<close>

text \<open>
  C7, as stated, says that a toast shown while another is visible stays for the full
  3000 milliseconds. \<^verbatim>\<open>showToast\<close> starts a timer and cancels none: a first toast at time 0
  and a second at time 2000 leave the second visible at 2000 and hidden at 3000, when
  the timer of the first runs.
\<close>

theorem second_toast_hidden_early:
  "toast_text (run sample_parse
     [RefreshClicked,
      RefreshSettles (Response 200 (Inr (JObj [(''message'', JStr ''first'')]))),
      TimePasses 2000,
      RefreshClicked,
      RefreshSettles (Response 200 (Inr (JObj [(''message'', JStr ''second'')])))]
     sample_page) = ''second'' \<and>
   toast_visible (run sample_parse
     [RefreshClicked,
      RefreshSettles (Response 200 (Inr (JObj [(''message'', JStr ''first'')]))),
      TimePasses 2000,
      RefreshClicked,
      RefreshSettles (Response 200 (Inr (JObj [(''message'', JStr ''second'')])))]
     sample_page) \<and>
   clock (run sample_parse
     [RefreshClicked,
      RefreshSettles (Response 200 (Inr (JObj [(''message'', JStr ''first'')]))),
      TimePasses 2000,
      RefreshClicked,
      RefreshSettles (Response 200 (Inr (JObj [(''message'', JStr ''second'')])))]
     sample_page) = 2000 \<and>
   clock (run sample_parse
     [RefreshClicked,
      RefreshSettles (Response 200 (Inr (JObj [(''message'', JStr ''first'')]))),
      TimePasses 2000,
      RefreshClicked,
      RefreshSettles (Response 200 (Inr (JObj [(''message'', JStr ''second'')]))),
      TimePasses 1000]
     sample_page) = 3000 \<and>
   \<not> toast_visible (run sample_parse
     [RefreshClicked,
      RefreshSettles (Response 200 (Inr (JObj [(''message'', JStr ''first'')]))),
      TimePasses 2000,
      RefreshClicked,
      RefreshSettles (Response 200 (Inr (JObj [(''message'', JStr ''second'')]))),
      TimePasses 1000]
     sample_page)"
  by (simp add: sample_page_def awaiting_def refresh_begin_def fetch_def refresh_class_add_def
      set_refresh_disabled_def refresh_request_def refresh_resume_def refresh_try_def
      try_catch_finally_def showToast_def show_text_def setTimeout_def toast_class_add_def
      set_toast_text_def refresh_finally_def refresh_class_remove_def class_add_def class_remove_def
      advance_def Let_def toast_timeout_def toast_class_remove_def toast_visible_def)

text \<open>
  C7, amended. \<^verbatim>\<open>showToast\<close> replaces the text of the toast, makes it visible and sets a
  timer for 3000 milliseconds later, beside the timers already pending. After \<open>d\<close> more
  milliseconds the toast is visible exactly when \<open>d\<close> is below 3000 and no timer pending
  from before has come due: it is hidden 3000 milliseconds after it was last shown at
  the latest, and it stays for the full 3000 milliseconds exactly when no earlier timer
  is pending.
\<close>

theorem toast_hidden_when_first_timer_is_due:
  "toast_text (page_of (showToast (JStr t) s)) = t \<and>
   toast_visible (page_of (showToast (JStr t) s)) \<and>
   timers (page_of (showToast (JStr t) s)) = timers s @ [clock s + 3000] \<and>
   (toast_visible (advance d (page_of (showToast (JStr t) s))) \<longleftrightarrow>
      d < 3000 \<and> (\<forall>due \<in> set (timers s). clock s + d < due))"
proof -
  have shown: "page_of (showToast (JStr t) s) = show_text t s"
    by (simp add: showToast_string)
  have "toast_visible (advance d (show_text t s)) \<longleftrightarrow>
          toast_visible (show_text t s) \<and>
          (\<forall>due \<in> set (timers (show_text t s)). clock (show_text t s) + d < due)"
    by (rule toast_visible_advance)
  also have "\<dots> \<longleftrightarrow> (\<forall>due \<in> set (timers s @ [clock s + 3000]). clock s + d < due)"
    by (simp add: show_text_fields)
  also have "\<dots> \<longleftrightarrow> d < 3000 \<and> (\<forall>due \<in> set (timers s). clock s + d < due)"
    by auto
  finally show ?thesis
    by (simp add: shown show_text_fields)
qed

theorem toast_hidden_when_first_timer_is_due_witness:
  "toast_visible (advance 2999 (page_of (showToast (JStr ''first'') sample_page))) \<and>
   \<not> toast_visible (advance 3000 (page_of (showToast (JStr ''first'') sample_page))) \<and>
   toast_visible (advance 999
     (page_of (showToast (JStr ''second'') (sample_page\<lparr>timers := [3000], clock := 2000\<rparr>)))) \<and>
   \<not> toast_visible (advance 1000
     (page_of (showToast (JStr ''second'') (sample_page\<lparr>timers := [3000], clock := 2000\<rparr>))))"
  using toast_hidden_when_first_timer_is_due [of "''first''" sample_page 2999]
        toast_hidden_when_first_timer_is_due [of "''first''" sample_page 3000]
        toast_hidden_when_first_timer_is_due
          [of "''second''" "sample_page\<lparr>timers := [3000], clock := 2000\<rparr>" 999]
        toast_hidden_when_first_timer_is_due
          [of "''second''" "sample_page\<lparr>timers := [3000], clock := 2000\<rparr>" 1000]
  by (simp add: sample_page_def)

subsection \<open>C8: the order of the effects\<close>



subsection \<open>C9: the status code, and what reaches the catch block\<close>

text \<open>
  C9, as stated, says that the \<^verbatim>\<open>catch\<close> block is reached only when \<^verbatim>\<open>fetch\<close> or the JSON
  parse throws. It is also reached when both succeed and the body is \<^verbatim>\<open>null\<close>: reading
  \<^verbatim>\<open>data.response\<close> throws a TypeError after the indicator has been removed, and the page
  shows \<^verbatim>\<open>Unable to connect to the server.\<close>
\<close>

theorem failure_branch_without_transport_failure:
  "thrown (submit_try sample_parse (Response 200 (Inr JNull))
     (sample_page\<lparr>chat_messages := [typing_indicator sample_parse]\<rparr>)) = Some TypeError \<and>
   new_effects (sample_page\<lparr>chat_messages := [typing_indicator sample_parse]\<rparr>)
     (page_of (submit_resume sample_parse (Response 200 (Inr JNull))
        (sample_page\<lparr>chat_messages := [typing_indicator sample_parse]\<rparr>))) =
     [Removed (typing_indicator sample_parse),
      Appended (Element ''div'' [] [''message'', ''ai'']
         [Element ''div'' [] [''content''] [TextNode ''Unable to connect to the server.'']]),
      ConsoleError TypeError, InputDisabledSet False, InputFocused]"
proof -
  let ?s = "sample_page\<lparr>chat_messages := [typing_indicator sample_parse]\<rparr>"
  have g: "get_prop JNull ''response'' = Inl TypeError \<or>
           (get_prop JNull ''response'' = Inr v \<and> truthy v \<and> to_string v = Inl TypeError)" for v
    by simp
  have r1: "removal ?s = [Removed (typing_indicator sample_parse)]"
    by (simp add: removal_def typing_indicator_def)
  have r2: "removal (removeTypingIndicator ?s) = []"
    by (simp add: removal_def chat_removeTypingIndicator typing_indicator_def)
  show ?thesis
    using submit_resume_throwing [OF g, of sample_parse 200 ?s]
    by (simp add: submit_try_def Let_def effects_failure_twice r1 r2 message_element_def
        class_add_def sample_parse_unable)
qed

text \<open>
  C9, amended. The status code of the response never matters: two responses with the
  same body give the same result. An object whose \<^verbatim>\<open>response\<close> property is a string that
  is not empty is rendered as an ai message, whatever the status. The \<^verbatim>\<open>try\<close> block
  throws, so that the \<^verbatim>\<open>catch\<close> block runs, exactly when \<^verbatim>\<open>fetch\<close> rejects, or
  \<^verbatim>\<open>response.json()\<close> rejects, or the parsed body is \<^verbatim>\<open>null\<close> (or \<^verbatim>\<open>undefined\<close>), or the
  \<^verbatim>\<open>response\<close> property is truthy and its conversion to a string throws.
\<close>

theorem status_is_ignored_and_failure_branch:
  "submit_resume parse (Response status b) s = submit_resume parse (Response status' b) s \<and>
   (map_of kvs ''response'' = Some (JStr t) \<and> t \<noteq> [] \<longrightarrow>
      thrown (submit_try parse (Response status (Inr (JObj kvs))) s) = None \<and>
      new_effects s (page_of (submit_resume parse (Response status (Inr (JObj kvs))) s)) =
        removal s @
        [Appended (message_element parse t ''ai''), InputDisabledSet False, InputFocused]) \<and>
   (thrown (submit_try parse r s) \<noteq> None \<longleftrightarrow>
      (\<exists>e. r = Rejected e) \<or>
      (\<exists>st e. r = Response st (Inl e)) \<or>
      (\<exists>st data. r = Response st (Inr data) \<and>
         (data = JNull \<or> data = JUndefined \<or>
          (\<exists>v e. get_prop data ''response'' = Inr v \<and> truthy v \<and> to_string v = Inl e))))"
proof (intro conjI impI)
  show "submit_resume parse (Response status b) s = submit_resume parse (Response status' b) s"
    by (simp add: submit_resume_def submit_try_def)
next
  assume h: "map_of kvs ''response'' = Some (JStr t) \<and> t \<noteq> []"
  then have g: "get_prop (JObj kvs) ''response'' = Inr (JStr t)" by simp
  have tr: "truthy (JStr t)" using h by simp
  show "thrown (submit_try parse (Response status (Inr (JObj kvs))) s) = None"
    using h by (simp add: submit_try_def Let_def addMessage_string)
  show "new_effects s (page_of (submit_resume parse (Response status (Inr (JObj kvs))) s)) =
        removal s @
        [Appended (message_element parse t ''ai''), InputDisabledSet False, InputFocused]"
    using submit_resume_text [OF g tr, of t parse status s] by (simp add: effects_reply)
next
  show "thrown (submit_try parse r s) \<noteq> None \<longleftrightarrow>
      (\<exists>e. r = Rejected e) \<or>
      (\<exists>st e. r = Response st (Inl e)) \<or>
      (\<exists>st data. r = Response st (Inr data) \<and>
         (data = JNull \<or> data = JUndefined \<or>
          (\<exists>v e. get_prop data ''response'' = Inr v \<and> truthy v \<and> to_string v = Inl e)))"
    by (rule submit_try_throws_iff)
qed

theorem status_is_ignored_and_failure_branch_witness:
  "map_of [(''response'', JStr ''Hello'')] ''response'' = Some (JStr ''Hello'') \<and>
   thrown (submit_try sample_parse (Response 500 (Inr (JObj [(''response'', JStr ''Hello'')])))
     (sample_page\<lparr>chat_messages := [typing_indicator sample_parse]\<rparr>)) = None \<and>
   new_effects (sample_page\<lparr>chat_messages := [typing_indicator sample_parse]\<rparr>)
     (page_of (submit_resume sample_parse
        (Response 500 (Inr (JObj [(''response'', JStr ''Hello'')])))
        (sample_page\<lparr>chat_messages := [typing_indicator sample_parse]\<rparr>))) =
     [Removed (typing_indicator sample_parse),
      Appended (Element ''div'' [] [''message'', ''ai'']
         [Element ''div'' [] [''content''] [TextNode ''Hello'']]),
      InputDisabledSet False, InputFocused] \<and>
   thrown (submit_try sample_parse
     (Response 200 (Inr (JObj [(''response'', JObj [(''toString'', JNum ''1'')])])))
     sample_page) = Some TypeError"
proof -
  let ?s = "sample_page\<lparr>chat_messages := [typing_indicator sample_parse]\<rparr>"
  let ?kvs = "[(''response'', JStr ''Hello'')]"
  have r1: "removal ?s = [Removed (typing_indicator sample_parse)]"
    by (simp add: removal_def typing_indicator_def)
  have a: "thrown (submit_try sample_parse (Response 500 (Inr (JObj ?kvs))) ?s) = None"
    and b: "new_effects ?s (page_of (submit_resume sample_parse (Response 500 (Inr (JObj ?kvs))) ?s)) =
        removal ?s @
        [Appended (message_element sample_parse ''Hello'' ''ai''), InputDisabledSet False, InputFocused]"
    using status_is_ignored_and_failure_branch [of sample_parse 500 _ ?s _ ?kvs "''Hello''"]
    by auto
  have c: "thrown (submit_try sample_parse
     (Response 200 (Inr (JObj [(''response'', JObj [(''toString'', JNum ''1'')])])))
     sample_page) = Some TypeError"
    by (simp add: submit_try_def Let_def addMessage_def)
  show ?thesis
    unfolding a b r1
    using c by (simp add: message_element_def class_add_def sample_parse_Hello)
qed

subsection \<open>C10: the text of a message is markup\<close>

text \<open>
  C10. For every text and every sender that \<^verbatim>\<open>classList.add\<close> accepts as a token (the
  script passes \<^verbatim>\<open>user\<close> and \<^verbatim>\<open>ai\<close>), \<^verbatim>\<open>addMessage\<close> writes the text, converted to a string
  and otherwise as it is, between \<^verbatim>\<open><div class="content">\<close> and \<^verbatim>\<open></div>\<close> and gives the whole
  string to the HTML parser through \<^verbatim>\<open>innerHTML\<close>: the children of the message are what the
  parser makes of that string, so markup in the text becomes elements of the page. This
  is so for the query that the user submits and for the \<^verbatim>\<open>response\<close> that the server
  sends. A sender that is no token makes \<^verbatim>\<open>addMessage\<close> throw and leaves the page as it was.
\<close>

theorem message_text_is_set_as_markup:
  \<open>(token_error sender = None \<and> to_string text = Inr t \<longrightarrow>
      addMessage parse text sender s =
        Normal (appendChild
          (Element ''div'' [] (class_add sender [''message''])
             (parse (''<div class="content">'' @ t @ ''</div>''))) s) \<and>
      chat_messages (page_of (addMessage parse text sender s)) =
        chat_messages s @
        [Element ''div'' [] (class_add sender [''message''])
           (parse (''<div class="content">'' @ t @ ''</div>''))]) \<and>
   (token_error sender = Some e \<longrightarrow> addMessage parse text sender s = Throw e s) \<and>
   (trim (input_value s) \<noteq> [] \<longrightarrow>
      chat_messages (page_of (submit_begin parse s)) =
        chat_messages s @
        [Element ''div'' [] [''message'', ''user'']
           (parse (''<div class="content">'' @ trim (input_value s) @ ''</div>'')),
         typing_indicator parse]) \<and>
   (get_prop data ''response'' = Inr v \<and> truthy v \<and> to_string v = Inr t \<longrightarrow>
      chat_messages (page_of (submit_resume parse (Response status (Inr data)) s)) =
        detach ''typing-indicator'' (chat_messages s) @
        [Element ''div'' [] [''message'', ''ai'']
           (parse (''<div class="content">'' @ t @ ''</div>''))])\<close>
proof (intro conjI impI)
  assume "token_error sender = Some e"
  then show "addMessage parse text sender s = Throw e s"
    by (simp add: addMessage_def)
next
  assume "token_error sender = None \<and> to_string text = Inr t"
  then show \<open>addMessage parse text sender s =
        Normal (appendChild
          (Element ''div'' [] (class_add sender [''message''])
             (parse (''<div class="content">'' @ t @ ''</div>''))) s)\<close>
    and \<open>chat_messages (page_of (addMessage parse text sender s)) =
        chat_messages s @
        [Element ''div'' [] (class_add sender [''message''])
           (parse (''<div class="content">'' @ t @ ''</div>''))]\<close>
    by (simp_all add: addMessage_def message_element_def content_html_def class_add_def
        appendChild_def)
next
  assume "trim (input_value s) \<noteq> []"
  then show \<open>chat_messages (page_of (submit_begin parse s)) =
        chat_messages s @
        [Element ''div'' [] [''message'', ''user'']
           (parse (''<div class="content">'' @ trim (input_value s) @ ''</div>'')),
         typing_indicator parse]\<close>
    by (simp add: submit_begin_sent message_element_def content_html_def class_add_def)
next
  assume "get_prop data ''response'' = Inr v \<and> truthy v \<and> to_string v = Inr t"
  then have "submit_resume parse (Response status (Inr data)) s =
     Normal (submit_finally (appendChild (message_element parse t ''ai'') (removeTypingIndicator s)))"
    using submit_resume_text [of data v t parse status s] by simp
  then show \<open>chat_messages (page_of (submit_resume parse (Response status (Inr data)) s)) =
        detach ''typing-indicator'' (chat_messages s) @
        [Element ''div'' [] [''message'', ''ai'']
           (parse (''<div class="content">'' @ t @ ''</div>''))]\<close>
    by (simp add: chat_reply message_element_def content_html_def class_add_def)
qed

theorem message_text_is_set_as_markup_witness:
  \<open>token_error ''user'' = None \<and>
   to_string (JStr ''<i id="typing-indicator"></i>'') = Inr ''<i id="typing-indicator"></i>'' \<and>
   chat_messages (page_of
     (addMessage sample_parse (JStr ''<i id="typing-indicator"></i>'') ''user'' sample_page)) =
     [Element ''div'' [] [''message'', ''user'']
        [Element ''div'' [] [''content''] [Element ''i'' ''typing-indicator'' [] []]]] \<and>
   token_error ''the user'' = Some InvalidCharacterError \<and>
   addMessage sample_parse (JStr ''hi'') ''the user'' sample_page =
     Throw InvalidCharacterError sample_page \<and>
   trim (input_value (sample_page\<lparr>input_value := ''<i id="typing-indicator"></i>''\<rparr>)) =
     ''<i id="typing-indicator"></i>'' \<and>
   chat_messages (page_of (submit_begin sample_parse
     (sample_page\<lparr>input_value := ''<i id="typing-indicator"></i>''\<rparr>))) =
     [Element ''div'' [] [''message'', ''user'']
        [Element ''div'' [] [''content''] [Element ''i'' ''typing-indicator'' [] []]],
      typing_indicator sample_parse] \<and>
   get_prop (JObj [(''response'', JStr ''<i id="typing-indicator"></i>'')]) ''response'' =
     Inr (JStr ''<i id="typing-indicator"></i>'') \<and>
   truthy (JStr ''<i id="typing-indicator"></i>'') \<and>
   chat_messages (page_of (submit_resume sample_parse
     (Response 200 (Inr (JObj [(''response'', JStr ''<i id="typing-indicator"></i>'')])))
     sample_page)) =
     [Element ''div'' [] [''message'', ''ai'']
        [Element ''div'' [] [''content''] [Element ''i'' ''typing-indicator'' [] []]]]\<close>
proof -
  let ?x = \<open>''<i id="typing-indicator"></i>''\<close>
  let ?s = "sample_page\<lparr>input_value := ?x\<rparr>"
  let ?data = "JObj [(''response'', JStr ?x)]"
  have p: \<open>sample_parse (''<div class="content">'' @ ?x @ ''</div>'') =
     [Element ''div'' [] [''content''] [Element ''i'' ''typing-indicator'' [] []]]\<close>
    using sample_parse_injected by (simp add: content_html_def)
  have c: "chat_messages sample_page = []" "chat_messages ?s = []"
    by (simp_all add: sample_page_def)
  have h1: "token_error ''user'' = None \<and> to_string (JStr ?x) = Inr ?x" by simp
  have h0: "token_error ''the user'' = Some InvalidCharacterError"
    by (simp add: token_error_def ascii_whitespace_def)
  have e: "addMessage sample_parse (JStr ''hi'') ''the user'' sample_page =
             Throw InvalidCharacterError sample_page"
    using message_text_is_set_as_markup
            [of "''the user''" "JStr ''hi''" _ sample_parse sample_page InvalidCharacterError] h0
    by blast
  have h2: "trim (input_value ?s) = ?x" "trim (input_value ?s) \<noteq> []"
    by (simp_all add: trim_injected)
  have h3: "get_prop ?data ''response'' = Inr (JStr ?x) \<and> truthy (JStr ?x) \<and>
            to_string (JStr ?x) = Inr ?x"
    by simp
  note w1 = message_text_is_set_as_markup
              [of "''user''" "JStr ?x" ?x sample_parse sample_page]
  note w2 = message_text_is_set_as_markup [where parse = sample_parse and s = ?s]
  note w3 = message_text_is_set_as_markup
              [where t = ?x and parse = sample_parse and s = sample_page and data = ?data
                 and v = "JStr ?x" and status = 200]
  have a: \<open>chat_messages (page_of (addMessage sample_parse (JStr ?x) ''user'' sample_page)) =
       chat_messages sample_page @
       [Element ''div'' [] (class_add ''user'' [''message''])
          (sample_parse (''<div class="content">'' @ ?x @ ''</div>''))]\<close>
    using w1 h1 by blast
  have b: \<open>chat_messages (page_of (submit_begin sample_parse ?s)) =
       chat_messages ?s @
       [Element ''div'' [] [''message'', ''user'']
          (sample_parse (''<div class="content">'' @ trim (input_value ?s) @ ''</div>'')),
        typing_indicator sample_parse]\<close>
    using w2 h2(2) by blast
  have d: \<open>chat_messages (page_of (submit_resume sample_parse (Response 200 (Inr ?data)) sample_page)) =
       detach ''typing-indicator'' (chat_messages sample_page) @
       [Element ''div'' [] [''message'', ''ai'']
          (sample_parse (''<div class="content">'' @ ?x @ ''</div>''))]\<close>
    using w3 h3 by blast
  show ?thesis
    unfolding a b d e h2(1) p c by (simp add: class_add_def trim_injected h0)
qed

end
